theory Spec2Isabelle
  imports Complex_Main "HOL-Library.Char_ord" "HOL-Library.List_Lexorder" "HOL-Library.AList"
    "HOL-Library.Multiset" "HOL-Library.Log_Nat" "HOL-Library.Code_Target_Nat"
begin

section \<open>JavaScript numbers\<close>

text \<open>
  A JavaScript number is a binary64 value: a sign, a significand of 53 bits and a binary
  exponent. The model writes a number by its exact value, an \<^typ>\<open>int\<close> where the
  number is an integer and a \<^typ>\<open>rat\<close> otherwise, and rounds the result of an
  operation that can be inexact to the nearest binary64 value, the one with the even
  significand of two equally near (\<open>fl\<close>, \<open>fl_int\<close>, \<open>js_div\<close>). It covers the normal
  range: infinities, \<^verbatim>\<open>NaN\<close>, the negative zero and subnormal numbers have no value
  in it.

  \<open>rne a b\<close> is \<open>a / b\<close> rounded to the nearest integer, to the even one of two equally
  near, for \<open>a \<ge> 0\<close> and \<open>b > 0\<close>.
\<close>

definition rne :: "int \<Rightarrow> int \<Rightarrow> int" where
  "rne a b =
     (let q = a div b; r = a mod b
      in if 2 * r > b \<or> (2 * r = b \<and> odd q) then q + 1 else q)"

text \<open>
  \<open>binary_exponent a b\<close> is the exponent \<open>e\<close> with \<open>2^e \<le> a / b < 2^(e+1)\<close>, for
  \<open>a, b > 0\<close>: the difference \<open>d\<close> of the bit lengths or one less, since
  \<open>2^(d-1) < a / b < 2^(d+1)\<close>.
\<close>

definition binary_exponent :: "int \<Rightarrow> int \<Rightarrow> int" where
  "binary_exponent a b =
     (let d = bitlen a - bitlen b
      in if (if 0 \<le> d then b * 2 ^ nat d \<le> a else b \<le> a * 2 ^ nat (- d)) then d else d - 1)"

text \<open>
  The binary64 value nearest to \<open>a / b\<close>, for \<open>a, b > 0\<close>: with \<open>s\<close> the exponent of the
  last significand bit, the multiple of \<open>2^s\<close> nearest to \<open>a / b\<close>.
\<close>

definition fl_quot :: "int \<Rightarrow> int \<Rightarrow> rat" where
  "fl_quot a b =
     (let s = binary_exponent a b - 52
      in if 0 \<le> s then of_int (rne a (b * 2 ^ nat s) * 2 ^ nat s)
         else of_int (rne (a * 2 ^ nat (- s)) b) / of_int (2 ^ nat (- s)))"

text \<open>The quotient \<^verbatim>\<open>a / b\<close> of two integers, \<open>b \<noteq> 0\<close>.\<close>

definition js_div :: "int \<Rightarrow> int \<Rightarrow> rat" where
  "js_div a b = (if a = 0 \<or> b = 0 then 0 else of_int (sgn a * sgn b) * fl_quot \<bar>a\<bar> \<bar>b\<bar>)"

text \<open>The binary64 value nearest to a rational, and to an integer.\<close>

definition fl :: "rat \<Rightarrow> rat" where
  "fl x = (if x = 0 then 0 else case quotient_of \<bar>x\<bar> of (a, b) \<Rightarrow> sgn x * fl_quot a b)"

definition fl_int :: "int \<Rightarrow> int" where
  "fl_int i = \<lfloor>js_div i 1\<rfloor>"

text \<open>
  The number an integer result is stored as: its nearest binary64 value, and no value of
  the model where that takes more than 1024 bits, so is beyond the largest finite number
  (an infinity in JavaScript).
\<close>

definition js_num :: "int \<Rightarrow> int option" where
  "js_num i = (let r = fl_int i in if bitlen \<bar>r\<bar> \<le> 1024 then Some r else None)"

section \<open>JavaScript strings\<close>

text \<open>Strings are lists of code units below 256, written as \<^typ>\<open>string\<close>.\<close>

definition digit_char :: "nat \<Rightarrow> char" where
  "digit_char d = char_of (48 + d)"

definition is_digit :: "char \<Rightarrow> bool" where
  "is_digit c = (48 \<le> (of_char c :: nat) \<and> (of_char c :: nat) \<le> 57)"

definition digit_val :: "char \<Rightarrow> nat" where
  "digit_val c = of_char c - 48"

text \<open>\<^verbatim>\<open>String(n)\<close> for a natural number: its decimal digits, most significant first.\<close>

fun digits :: "nat \<Rightarrow> string" where
  "digits n = (if n < 10 then [digit_char n] else digits (n div 10) @ [digit_char (n mod 10)])"

declare digits.simps [simp del]

text \<open>
  \<^verbatim>\<open>String(i)\<close> for an integer \<open>i\<close> with \<open>\<bar>i\<bar> \<le> 2^53\<close>: a minus sign before the digits
  of a negative one. (A larger number is printed with the fewest digits that read back as
  the same number, and from \<open>10^21\<close> on with an exponent; the model does not cover
  these.)
\<close>

definition js_String :: "int \<Rightarrow> string" where
  "js_String i = (if i < 0 then CHR ''-'' # digits (nat (- i)) else digits (nat i))"

text \<open>\<^verbatim>\<open>s.padStart(n, '0')\<close>: zeros in front until the length is at least \<open>n\<close>.\<close>

definition padStart :: "nat \<Rightarrow> string \<Rightarrow> string" where
  "padStart n s = replicate (n - length s) (CHR ''0'') @ s"

text \<open>The remainder operator \<^verbatim>\<open>a % b\<close>: the result takes the sign of the dividend.\<close>

definition js_rem :: "int \<Rightarrow> int \<Rightarrow> int" where
  "js_rem a b = (if a < 0 then - ((- a) mod \<bar>b\<bar>) else a mod \<bar>b\<bar>)"

text \<open>\<^verbatim>\<open>s.split(c)\<close> for a one-character separator; the empty string gives one empty part.\<close>

fun split_on :: "char \<Rightarrow> string \<Rightarrow> string list" where
  "split_on c [] = [[]]"
| "split_on c (x # xs) =
     (if x = c then [] # split_on c xs
      else (case split_on c xs of
              [] \<Rightarrow> [[x]]
            | p # ps \<Rightarrow> (x # p) # ps))"

text \<open>
  \<^verbatim>\<open>Number(s)\<close>. The model covers the strings a time field can be: a non-empty run of
  decimal digits, read in base ten (leading zeros allowed) and rounded to the nearest
  number. On every other string it returns \<open>None\<close>, which stands for \<^verbatim>\<open>NaN\<close> or for a
  number outside the model (JavaScript also accepts signs, fractions, exponents,
  hexadecimal and surrounding blanks).
\<close>

definition digits_value :: "string \<Rightarrow> nat" where
  "digits_value s = foldl (\<lambda>acc c. 10 * acc + digit_val c) 0 s"

definition js_Number :: "string \<Rightarrow> int option" where
  "js_Number s = (if s \<noteq> [] \<and> list_all is_digit s then js_num (int (digits_value s)) else None)"

section \<open>Time conversion\<close>

text \<open>
  \<^verbatim>\<open>function timeToMinutes(timeStr) {
    const [h, m] = timeStr.split(':').map(Number);
    return h * 60 + m; }\<close>
  The destructuring takes the first two parts; a missing part is \<^verbatim>\<open>undefined\<close> and makes
  the sum \<^verbatim>\<open>NaN\<close>. The product and the sum are each rounded to a number.
\<close>

definition timeToMinutes :: "string \<Rightarrow> int option" where
  "timeToMinutes timeStr =
     (case map js_Number (split_on (CHR '':'') timeStr) of
        Some h # Some m # _ \<Rightarrow>
          (case js_num (h * 60) of
             None \<Rightarrow> None
           | Some h60 \<Rightarrow> js_num (h60 + m))
      | _ \<Rightarrow> None)"

text \<open>
  \<^verbatim>\<open>function minutesToTime(mins) {
    const h = Math.floor(mins / 60);
    const m = mins % 60;
    return String(h).padStart(2, '0') + ':' + String(m).padStart(2, '0'); }\<close>
  for an integer \<open>mins\<close>. The quotient is rounded to a number before \<^verbatim>\<open>Math.floor\<close>; the
  remainder \<^verbatim>\<open>%\<close> is exact.
\<close>

definition minutesToTime :: "int \<Rightarrow> string" where
  "minutesToTime mins =
     (let h = \<lfloor>js_div mins 60\<rfloor>;
          m = js_rem mins 60
      in padStart 2 (js_String h) @ '':'' @ padStart 2 (js_String m))"

section \<open>Worked-time calculator\<close>

text \<open>
  \<^verbatim>\<open>function computeWorkedMinutes(actualIn, actualOut, deduction = 0)\<close>: the third
  argument is optional, \<open>None\<close> is the call with two arguments. The deduction is an
  integer; each difference is rounded to a number.
\<close>

definition computeWorkedMinutes :: "string \<Rightarrow> string \<Rightarrow> int option \<Rightarrow> int option" where
  "computeWorkedMinutes actualIn actualOut deductionParam =
     (let deduction = (case deductionParam of None \<Rightarrow> 0 | Some d \<Rightarrow> d)
      in case (timeToMinutes actualIn, timeToMinutes actualOut) of
           (Some ai, Some ao) \<Rightarrow>
             (let minutes0 = fl_int (ao - ai);
                  minutes1 = (if minutes0 < 0 then 0 else minutes0);
                  minutes2 = fl_int (minutes1 - deduction);
                  minutes3 = (if minutes2 < 0 then 0 else minutes2)
              in Some minutes3)
         | _ \<Rightarrow> None)"

text \<open>
  \<^verbatim>\<open>x.toFixed(2)\<close> for a number of exact value \<open>x\<close> with \<open>\<bar>x\<bar> < 10^21\<close>: the hundredth
  nearest to \<open>\<bar>x\<bar>\<close>, the larger one of two equally near, after the sign.
\<close>

definition toFixed2 :: "rat \<Rightarrow> string" where
  "toFixed2 x =
     (let s = (if x < 0 then ''-'' else []);
          n = nat \<lfloor>\<bar>x\<bar> * 100 + 1 / 2\<rfloor>;
          m = padStart 3 (digits n)
      in s @ take (length m - 2) m @ ''.'' @ drop (length m - 2) m)"

text \<open>\<^verbatim>\<open>function formatHours(mins) { return (mins / 60).toFixed(2); }\<close>\<close>

definition formatHours :: "int \<Rightarrow> string" where
  "formatHours mins = toFixed2 (js_div mins 60)"

text \<open>A well-formed time of day: two digits, a colon, two digits, at most 23:59.\<close>

definition well_formed_time :: "string \<Rightarrow> bool" where
  "well_formed_time s =
     (case s of
        [a, b, c, d, e] \<Rightarrow>
          is_digit a \<and> is_digit b \<and> c = CHR '':'' \<and> is_digit d \<and> is_digit e \<and>
          10 * digit_val a + digit_val b \<le> 23 \<and> 10 * digit_val d + digit_val e \<le> 59
      | _ \<Rightarrow> False)"

section \<open>Dates\<close>

text \<open>
  A \<^verbatim>\<open>Date\<close> object is modelled by the fields its accessors return in the local time zone.
  Months count from 0, as \<^verbatim>\<open>getMonth()\<close> does.
\<close>

record js_date =
  getFullYear :: int
  getMonth :: int
  getDate :: int
  getHours :: int
  getMinutes :: int

type_synonym ymd = "int \<times> int \<times> int"

definition is_leap :: "int \<Rightarrow> bool" where
  "is_leap y = (y mod 4 = 0 \<and> (y mod 100 \<noteq> 0 \<or> y mod 400 = 0))"

definition daysInMonth :: "int \<Rightarrow> int \<Rightarrow> int" where
  "daysInMonth y m =
     (if m = 1 then (if is_leap y then 29 else 28)
      else if m = 3 \<or> m = 5 \<or> m = 8 \<or> m = 10 then 30
      else 31)"

fun prevDay :: "ymd \<Rightarrow> ymd" where
  "prevDay (y, m, d) =
     (if 1 < d then (y, m, d - 1)
      else if 0 < m then (y, m - 1, daysInMonth y (m - 1))
      else (y - 1, 11, 31))"

fun nextDay :: "ymd \<Rightarrow> ymd" where
  "nextDay (y, m, d) =
     (if d < daysInMonth y m then (y, m, d + 1)
      else if m < 11 then (y, m + 1, 1)
      else (y + 1, 0, 1))"

definition addDays :: "int \<Rightarrow> ymd \<Rightarrow> ymd" where
  "addDays k c = (if 0 \<le> k then (nextDay ^^ nat k) c else (prevDay ^^ nat (- k)) c)"

text \<open>
  \<^verbatim>\<open>new Date(year, monthIndex, day)\<close>: local midnight of the day reached from the first of
  the month by counting \<open>day - 1\<close> days on (or back, for \<open>day \<le> 0\<close>). A month index outside
  0..11 carries into the year, and a year from 0 to 99 means 1900 + year.
\<close>

definition new_Date :: "int \<Rightarrow> int \<Rightarrow> int \<Rightarrow> js_date" where
  "new_Date year monthIndex day =
     (let yr = (if 0 \<le> year \<and> year \<le> 99 then 1900 + year else year);
          (y, m, d) = addDays (day - 1) (yr + monthIndex div 12, monthIndex mod 12, 1)
      in \<lparr>getFullYear = y, getMonth = m, getDate = d, getHours = 0, getMinutes = 0\<rparr>)"

text \<open>
  \<^verbatim>\<open>date.toISOString().slice(0, 10)\<close>. \<^verbatim>\<open>toISOString\<close> prints the instant in UTC, while the
  fields of a \<^verbatim>\<open>Date\<close> are local. The parameter \<open>tzo\<close> is what \<^verbatim>\<open>getTimezoneOffset()\<close>
  returns for the date printed: UTC minus local time in minutes at that date (so \<open>-60\<close>
  in a zone one hour east of Greenwich, \<open>300\<close> in one five hours west; two dates of one
  zone have different offsets across a change of daylight saving time). A year outside
  0..9999 is printed with a sign and six digits.
\<close>

definition utc_day :: "int \<Rightarrow> js_date \<Rightarrow> ymd" where
  "utc_day tzo dt =
     addDays ((getHours dt * 60 + getMinutes dt + tzo) div 1440)
       (getFullYear dt, getMonth dt, getDate dt)"

definition iso_year :: "int \<Rightarrow> string" where
  "iso_year y =
     (if 0 \<le> y \<and> y \<le> 9999 then padStart 4 (digits (nat y))
      else (if y < 0 then ''-'' else ''+'') @ padStart 6 (digits (nat \<bar>y\<bar>)))"

fun iso_day :: "ymd \<Rightarrow> string" where
  "iso_day (y, m, d) =
     iso_year y @ ''-'' @ padStart 2 (digits (nat (m + 1))) @ ''-'' @ padStart 2 (digits (nat d))"

definition toISOString_slice10 :: "int \<Rightarrow> js_date \<Rightarrow> string" where
  "toISOString_slice10 tzo dt = take 10 (iso_day (utc_day tzo dt))"

section \<open>Pay period resolver\<close>

datatype js_error = RangeError | SyntaxError

text \<open>
  The loop of \<^verbatim>\<open>getPayPeriodStart\<close>:
  \<^verbatim>\<open>for (let i = 0; i < startDays.length; i++) {
    if (day >= startDays[i]) { chosenDay = startDays[i]; } }\<close>
\<close>

fun chooseDay :: "int \<Rightarrow> int list \<Rightarrow> int option \<Rightarrow> int option" where
  "chooseDay day [] chosenDay = chosenDay"
| "chooseDay day (s # rest) chosenDay =
     chooseDay day rest (if day \<ge> s then Some s else chosenDay)"

text \<open>
  \<^verbatim>\<open>function getPayPeriodStart(dateObj, startDaysParam)\<close>. With an empty array and no
  chosen day, \<^verbatim>\<open>startDays[startDays.length - 1]\<close> is \<^verbatim>\<open>undefined\<close>, the date is invalid and
  \<^verbatim>\<open>toISOString\<close> throws a \<^verbatim>\<open>RangeError\<close>. The only date the function prints is
  \<^verbatim>\<open>startDate\<close>, so \<open>tzo\<close> is the offset in force at local midnight of the start date.
\<close>

definition getPayPeriodStart :: "int \<Rightarrow> js_date \<Rightarrow> int list option \<Rightarrow> js_error + string" where
  "getPayPeriodStart tzo dateObj startDaysParam =
     (let startDays = sort (case startDaysParam of None \<Rightarrow> [1, 15] | Some ds \<Rightarrow> ds);
          day = getDate dateObj;
          month = getMonth dateObj;
          year = getFullYear dateObj
      in case chooseDay day startDays None of
           None \<Rightarrow>
             (let prevMonth = js_rem (month - 1 + 12) 12;
                  prevYear = (if month = 0 then year - 1 else year)
              in if startDays = [] then Inl RangeError
                 else
                   (let lastDay = last startDays;
                        daysInPrevMonth = getDate (new_Date prevYear (prevMonth + 1) 0);
                        startDate = new_Date prevYear prevMonth (min lastDay daysInPrevMonth)
                    in Inr (toISOString_slice10 tzo startDate)))
         | Some chosenDay \<Rightarrow>
             (let daysInMonth = getDate (new_Date year (month + 1) 0);
                  actualDay = min chosenDay daysInMonth;
                  startDate = new_Date year month actualDay
              in Inr (toISOString_slice10 tzo startDate)))"

text \<open>
  The period start as the specification words it, on calendar days: the largest start
  day not after the day of the month, in the same month; if there is none, the largest
  start day in the previous month; in both cases clamped to the month's day count.
\<close>

definition resolvePeriodStart_spec :: "js_date \<Rightarrow> int list \<Rightarrow> ymd" where
  "resolvePeriodStart_spec dt ds =
     (let y = getFullYear dt; m = getMonth dt; day = getDate dt
      in if \<exists>s\<in>set ds. s \<le> day
         then (y, m, min (Max (set (filter (\<lambda>s. s \<le> day) ds))) (daysInMonth y m))
         else (let py = (if m = 0 then y - 1 else y);
                   pm = (if m = 0 then 11 else m - 1)
               in (py, pm, min (Max (set ds)) (daysInMonth py pm))))"

text \<open>A calendar date with a four-digit year, from the year 101 on.\<close>

definition valid_date :: "js_date \<Rightarrow> bool" where
  "valid_date dt =
     (101 \<le> getFullYear dt \<and> getFullYear dt \<le> 9999 \<and>
      0 \<le> getMonth dt \<and> getMonth dt \<le> 11 \<and>
      1 \<le> getDate dt \<and> getDate dt \<le> daysInMonth (getFullYear dt) (getMonth dt) \<and>
      0 \<le> getHours dt \<and> getHours dt \<le> 23 \<and>
      0 \<le> getMinutes dt \<and> getMinutes dt \<le> 59)"

section \<open>Objects used as maps\<close>

text \<open>
  A plain object is modelled by the list of its own properties in the order of their
  creation. Assigning to an existing key keeps its place, assigning to a new key appends
  (\<^const>\<open>AList.update\<close>); \<^verbatim>\<open>delete\<close> removes the key (\<^const>\<open>AList.delete\<close>).

  \<^verbatim>\<open>Object.keys\<close> lists first the keys that are array indices (the canonical decimal
  form of an integer from 0 to \<open>2^32 - 2\<close>) in ascending numeric order, then the other
  keys in creation order.

  An object written \<^verbatim>\<open>{}\<close> also answers a lookup of a name it inherits from
  \<^verbatim>\<open>Object.prototype\<close>. The model is exact for keys outside \<open>inherited_names\<close>, and the
  theorems about objects keyed by user data assume such keys.
\<close>

type_synonym 'v js_object = "(string \<times> 'v) list"

definition obj_get :: "'v js_object \<Rightarrow> string \<Rightarrow> 'v option" where
  "obj_get obj k = map_of obj k"

definition is_array_index :: "string \<Rightarrow> bool" where
  "is_array_index k =
     (k \<noteq> [] \<and> list_all is_digit k \<and> digits (digits_value k) = k \<and> digits_value k \<le> 4294967294)"

definition key_order :: "string list \<Rightarrow> string list" where
  "key_order ks =
     sort_key digits_value (filter is_array_index ks) @ filter (\<lambda>k. \<not> is_array_index k) ks"

definition Object_keys :: "'v js_object \<Rightarrow> string list" where
  "Object_keys obj = key_order (map fst obj)"

definition inherited_names :: "string list" where
  "inherited_names =
     [''constructor'', ''hasOwnProperty'', ''isPrototypeOf'', ''propertyIsEnumerable'',
      ''toLocaleString'', ''toString'', ''valueOf'', ''__proto__'',
      ''__defineGetter__'', ''__defineSetter__'', ''__lookupGetter__'', ''__lookupSetter__'']"

definition plain_key :: "string \<Rightarrow> bool" where
  "plain_key k = (k \<notin> set inherited_names)"

section \<open>Records and storage\<close>

datatype role = Admin | Employee

text \<open>An account; \<open>hourlyRate\<close> is absent on the default administrator account.\<close>

record account =
  a_username :: string
  a_password :: string
  a_role :: role
  hourlyRate :: "rat option"

text \<open>A work log; \<open>deduction\<close> is absent until an administrator saves one.\<close>

record work_log =
  username :: string
  date :: string
  punchIn :: string
  punchOut :: string
  minutesWorked :: int
  payPeriodStart :: string
  deduction :: "int option"

record punch_record =
  p_date :: string
  p_punchIn :: string

record pay_settings =
  startDays :: "int list"

text \<open>
  The storage layer is modelled for \<^verbatim>\<open>useFirestore = false\<close>, the \<^verbatim>\<open>localStorage\<close> backend.
  Each of its four keys is absent, holds text that \<^verbatim>\<open>JSON.parse\<close> rejects, or holds the
  JSON text of a value of the expected shape. Writes are taken to succeed.
\<close>

datatype 'a item = Absent | Malformed | Stored 'a

record storage =
  accounts :: "account list item"
  logs :: "work_log list item"
  paySettings :: "pay_settings item"
  currentPunch :: "punch_record js_object item"

text \<open>\<^verbatim>\<open>JSON.parse(localStorage.getItem(key) || fallback)\<close>\<close>

definition parse_item :: "'a item \<Rightarrow> 'a \<Rightarrow> js_error + 'a" where
  "parse_item it fallback =
     (case it of Absent \<Rightarrow> Inr fallback | Malformed \<Rightarrow> Inl SyntaxError | Stored v \<Rightarrow> Inr v)"

definition getAccounts :: "storage \<Rightarrow> js_error + account list" where
  "getAccounts st = parse_item (accounts st) []"

definition getLogs :: "storage \<Rightarrow> js_error + work_log list" where
  "getLogs st = parse_item (logs st) []"

definition addLog :: "storage \<Rightarrow> work_log \<Rightarrow> js_error + work_log \<times> storage" where
  "addLog st entry =
     (case parse_item (logs st) [] of
        Inl e \<Rightarrow> Inl e
      | Inr ls \<Rightarrow> Inr (entry, st\<lparr>logs := Stored (ls @ [entry])\<rparr>))"

text \<open>
  The fields an update carries; \<^verbatim>\<open>Object.assign({}, old, updatedFields)\<close> overwrites the
  fields that are present.
\<close>

record log_fields =
  f_username :: "string option"
  f_date :: "string option"
  f_punchIn :: "string option"
  f_punchOut :: "string option"
  f_minutesWorked :: "int option"
  f_payPeriodStart :: "string option"
  f_deduction :: "int option"

definition assign_fields :: "work_log \<Rightarrow> log_fields \<Rightarrow> work_log" where
  "assign_fields old f =
     \<lparr>username = (case f_username f of None \<Rightarrow> username old | Some v \<Rightarrow> v),
      date = (case f_date f of None \<Rightarrow> date old | Some v \<Rightarrow> v),
      punchIn = (case f_punchIn f of None \<Rightarrow> punchIn old | Some v \<Rightarrow> v),
      punchOut = (case f_punchOut f of None \<Rightarrow> punchOut old | Some v \<Rightarrow> v),
      minutesWorked = (case f_minutesWorked f of None \<Rightarrow> minutesWorked old | Some v \<Rightarrow> v),
      payPeriodStart = (case f_payPeriodStart f of None \<Rightarrow> payPeriodStart old | Some v \<Rightarrow> v),
      deduction = (case f_deduction f of None \<Rightarrow> deduction old | Some v \<Rightarrow> Some v)\<rparr>"

text \<open>
  \<^verbatim>\<open>async updateLog(logId, updatedFields) { ...
    if (logId >= 0 && logId < logs.length) {
      logs[logId] = Object.assign({}, logs[logId], updatedFields);
      localStorage.setItem('logs', JSON.stringify(logs)); } }\<close>
\<close>

definition updateLog :: "storage \<Rightarrow> int \<Rightarrow> log_fields \<Rightarrow> js_error + storage" where
  "updateLog st logId updatedFields =
     (case parse_item (logs st) [] of
        Inl e \<Rightarrow> Inl e
      | Inr ls \<Rightarrow>
          if logId \<ge> 0 \<and> logId < int (length ls)
          then Inr (st\<lparr>logs := Stored (ls[nat logId := assign_fields (ls ! nat logId) updatedFields])\<rparr>)
          else Inr st)"

definition getPaySettings :: "storage \<Rightarrow> js_error + pay_settings" where
  "getPaySettings st = parse_item (paySettings st) \<lparr>startDays = [1, 15]\<rparr>"

definition setPaySettings :: "storage \<Rightarrow> pay_settings \<Rightarrow> storage" where
  "setPaySettings st settings = st\<lparr>paySettings := Stored settings\<rparr>"

definition getCurrentPunch :: "storage \<Rightarrow> js_error + punch_record js_object" where
  "getCurrentPunch st = parse_item (currentPunch st) []"

text \<open>
  \<^verbatim>\<open>setCurrentPunch(username, record)\<close> called with the whole map as its only argument,
  as the punch handlers do on this backend.
\<close>

definition setCurrentPunch :: "storage \<Rightarrow> punch_record js_object \<Rightarrow> storage" where
  "setCurrentPunch st m = st\<lparr>currentPunch := Stored m\<rparr>"

section \<open>Punch-out handler\<close>

text \<open>\<^verbatim>\<open>now.toTimeString().slice(0, 5)\<close>: the local time of day as \<^verbatim>\<open>HH:MM\<close>.\<close>

definition toTimeString_slice5 :: "js_date \<Rightarrow> string" where
  "toTimeString_slice5 dt =
     padStart 2 (digits (nat (getHours dt))) @ '':'' @ padStart 2 (digits (nat (getMinutes dt)))"

text \<open>
  What a run of a click handler ends with: an \<^verbatim>\<open>alert\<close>, a message written to the page,
  or a rejected promise. \<open>Outside_model\<close> marks a run on a time string for which the model
  of \<^verbatim>\<open>Number\<close> has no value.
\<close>

datatype outcome = Alerted string | Message string | Rejected js_error | Outside_model

text \<open>
  The click handler of \<^verbatim>\<open>punchOutBtn\<close> for the signed-in user \<open>currentUser\<close> at the moment
  \<open>now\<close>. \<open>tzoNow\<close> is the time zone offset of \<open>now\<close> and \<open>tzoStart\<close> the offset in force
  at local midnight of the period start. Of its effects on the page, the model keeps the
  alert and the punch message.
\<close>

definition punchOutBtn_click ::
  "int \<Rightarrow> int \<Rightarrow> account \<Rightarrow> js_date \<Rightarrow> storage \<Rightarrow> outcome \<times> storage" where
  "punchOutBtn_click tzoNow tzoStart currentUser now st =
     (let timeOutStr = toTimeString_slice5 now;
          today = toISOString_slice10 tzoNow now
      in case getCurrentPunch st of
           Inl e \<Rightarrow> (Rejected e, st)
         | Inr currentPunchMap \<Rightarrow>
             (case obj_get currentPunchMap (a_username currentUser) of
                None \<Rightarrow> (Alerted ''No punch in record found for today.'', st)
              | Some punchRecord \<Rightarrow>
                  if p_date punchRecord \<noteq> today
                  then (Alerted ''No punch in record found for today.'', st)
                  else
                    (let timeInStr = p_punchIn punchRecord
                     in case computeWorkedMinutes timeInStr timeOutStr None of
                          None \<Rightarrow> (Outside_model, st)
                        | Some minutesWorked' \<Rightarrow>
                            (let startDays' =
                                   (case getPaySettings st of
                                      Inr settings \<Rightarrow> startDays settings
                                    | Inl e \<Rightarrow> [1, 15])
                             in case getPayPeriodStart tzoStart now (Some startDays') of
                                  Inl e \<Rightarrow> (Rejected e, st)
                                | Inr payPeriodStart' \<Rightarrow>
                                    (case addLog st
                                            \<lparr>username = a_username currentUser,
                                             date = today,
                                             punchIn = timeInStr,
                                             punchOut = timeOutStr,
                                             minutesWorked = minutesWorked',
                                             payPeriodStart = payPeriodStart',
                                             deduction = None\<rparr> of
                                       Inl e \<Rightarrow> (Rejected e, st)
                                     | Inr (_, st1) \<Rightarrow>
                                         (Message (''You punched out at '' @ timeOutStr @
                                                   ''. Total worked: '' @
                                                   formatHours minutesWorked' @ '' hours.''),
                                          setCurrentPunch st1
                                            (AList.delete (a_username currentUser) currentPunchMap)))))))"

text \<open>The deduction a log is read with: \<^verbatim>\<open>log.deduction ?? 0\<close>.\<close>

definition deduction_of :: "work_log \<Rightarrow> int" where
  "deduction_of l = (case deduction l of None \<Rightarrow> 0 | Some d \<Rightarrow> d)"

section \<open>Saving the pay period days\<close>

text \<open>
  White space as \<^verbatim>\<open>trim\<close> and \<^verbatim>\<open>parseInt\<close> see it, among the code units below 256: tab, line
  feed, vertical tab, form feed, carriage return, space and no-break space.
\<close>

definition is_space :: "char \<Rightarrow> bool" where
  "is_space c = ((of_char c :: nat) \<in> {9, 10, 11, 12, 13, 32, 160})"

definition trim :: "string \<Rightarrow> string" where
  "trim s = rev (dropWhile is_space (rev (dropWhile is_space s)))"

text \<open>The value of a digit in a radix, if it is one: \<open>0-9\<close>, then \<open>a-z\<close> or \<open>A-Z\<close> from ten on.\<close>

definition radix_digit :: "nat \<Rightarrow> char \<Rightarrow> nat option" where
  "radix_digit r c =
     (let n = (of_char c :: nat);
          v = (if 48 \<le> n \<and> n \<le> 57 then Some (n - 48)
               else if 97 \<le> n \<and> n \<le> 122 then Some (n - 87)
               else if 65 \<le> n \<and> n \<le> 90 then Some (n - 55)
               else None)
      in case v of None \<Rightarrow> None | Some d \<Rightarrow> if d < r then Some d else None)"

text \<open>
  \<^verbatim>\<open>parseInt(s)\<close> with no radix: leading white space, an optional sign, an optional
  \<^verbatim>\<open>0x\<close> or \<^verbatim>\<open>0X\<close> that selects base sixteen, then the longest run of digits, whose value
  is rounded to a number; \<open>None\<close> is \<^verbatim>\<open>NaN\<close>. (A value beyond the largest finite number is
  an infinity in JavaScript and a large integer here; a run of more than twenty digits
  may be read less exactly by an implementation.)
\<close>

definition parseInt :: "string \<Rightarrow> int option" where
  "parseInt s =
     (let s1 = dropWhile is_space s;
          (sign, s2) = (case s1 of
                          c # rest \<Rightarrow> if c = CHR ''-'' then (- 1, rest)
                                      else if c = CHR ''+'' then (1, rest)
                                      else (1, s1)
                        | [] \<Rightarrow> (1 :: int, s1));
          (r, s3) = (case s2 of
                       z # x # rest \<Rightarrow> if z = CHR ''0'' \<and> (x = CHR ''x'' \<or> x = CHR ''X'')
                                          then (16 :: nat, rest) else (10, s2)
                     | _ \<Rightarrow> (10, s2));
          ds = takeWhile (\<lambda>c. radix_digit r c \<noteq> None) s3
      in if ds = [] then None
         else Some (sign * fl_int (int (foldl (\<lambda>acc c.
                       r * acc + (case radix_digit r c of None \<Rightarrow> 0 | Some d \<Rightarrow> d)) 0 ds))))"

text \<open>
  The click handler of \<^verbatim>\<open>savePayPeriodBtn\<close> on the text of the input field: it returns the
  message shown and the storage.
  \<^verbatim>\<open>const parts = input.split(',').map(s => parseInt(s.trim()))
         .filter(n => !isNaN(n) && n >= 1 && n <= 31);\<close>
\<close>

definition valid_day :: "int option \<Rightarrow> bool" where
  "valid_day n = (case n of None \<Rightarrow> False | Some d \<Rightarrow> d \<ge> 1 \<and> d \<le> 31)"

definition entered_days :: "string \<Rightarrow> int option list" where
  "entered_days v = map (\<lambda>s. parseInt (trim s)) (split_on (CHR '','') (trim v))"

definition savePayPeriodBtn_click :: "string \<Rightarrow> storage \<Rightarrow> string \<times> storage" where
  "savePayPeriodBtn_click v st =
     (let parts = List.map_filter (\<lambda>n. if valid_day n then n else None) (entered_days v)
      in if length parts = 0
         then (''Please enter valid day numbers separated by commas.'', st)
         else (''Pay period settings saved.'', setPaySettings st \<lparr>startDays = sort parts\<rparr>))"

text \<open>
  The inputs the specification calls invalid: some entry is not numeric or lies outside
  1..31.
\<close>

definition has_invalid_entry :: "string \<Rightarrow> bool" where
  "has_invalid_entry v = list_ex (\<lambda>n. \<not> valid_day n) (entered_days v)"

section \<open>Log aggregator\<close>

record summary_row =
  period :: string
  user :: string
  totalHours :: string
  totalPay :: string

type_synonym summary_map = "int js_object js_object"

text \<open>
  The body of \<^verbatim>\<open>logs.forEach\<close> in \<^verbatim>\<open>generateSummary\<close>:
  \<^verbatim>\<open>if (!summaryMap[log.payPeriodStart]) summaryMap[log.payPeriodStart] = {};
  const empMap = summaryMap[log.payPeriodStart];
  if (!empMap[log.username]) empMap[log.username] = 0;
  empMap[log.username] += log.minutesWorked;\<close>
  \<open>empMap\<close> is the object stored under the period, so the last line of the model writes
  it back. The sum is rounded to a number.
\<close>

definition summaryStep :: "summary_map \<Rightarrow> work_log \<Rightarrow> summary_map" where
  "summaryStep summaryMap l =
     (let summaryMap1 = (case obj_get summaryMap (payPeriodStart l) of
                           None \<Rightarrow> AList.update (payPeriodStart l) [] summaryMap
                         | Some _ \<Rightarrow> summaryMap);
          empMap = (case obj_get summaryMap1 (payPeriodStart l) of None \<Rightarrow> [] | Some e \<Rightarrow> e);
          empMap1 = (case obj_get empMap (username l) of
                       None \<Rightarrow> AList.update (username l) 0 empMap
                     | Some t \<Rightarrow> if t = 0 then AList.update (username l) 0 empMap else empMap);
          empMap2 = AList.update (username l)
                      (fl_int ((case obj_get empMap1 (username l) of None \<Rightarrow> 0 | Some t \<Rightarrow> t)
                         + minutesWorked l)) empMap1
      in AList.update (payPeriodStart l) empMap2 summaryMap1)"

definition buildSummaryMap :: "work_log list \<Rightarrow> summary_map" where
  "buildSummaryMap ls = foldl summaryStep [] ls"

text \<open>\<^verbatim>\<open>accounts.find(a => a.username === user)?.hourlyRate || 0\<close>\<close>

definition rateOf :: "account list \<Rightarrow> string \<Rightarrow> rat" where
  "rateOf accs u =
     (case find (\<lambda>a. a_username a = u) accs of
        None \<Rightarrow> 0
      | Some a \<Rightarrow> (case hourlyRate a of None \<Rightarrow> 0 | Some r \<Rightarrow> r))"

definition make_row :: "account list \<Rightarrow> string \<Rightarrow> string \<Rightarrow> int \<Rightarrow> summary_row" where
  "make_row accs p u totalMins =
     \<lparr>period = p, user = u, totalHours = formatHours totalMins,
      totalPay = toFixed2 (fl (js_div totalMins 60 * rateOf accs u))\<rparr>"

text \<open>
  The rows: \<^verbatim>\<open>Object.keys(summaryMap).sort().forEach(period => { ...
    Object.keys(empMap).forEach(user => { ... summaryRows.push(...) }) })\<close>
\<close>

definition summaryRows :: "work_log list \<Rightarrow> account list \<Rightarrow> summary_row list" where
  "summaryRows ls accs =
     (let summaryMap = buildSummaryMap ls
      in concat (map (\<lambda>p.
           (let empMap = (case obj_get summaryMap p of None \<Rightarrow> [] | Some e \<Rightarrow> e)
            in map (\<lambda>u. make_row accs p u (case obj_get empMap u of None \<Rightarrow> 0 | Some t \<Rightarrow> t))
                 (Object_keys empMap)))
         (sort (Object_keys summaryMap))))"

definition generateSummary :: "storage \<Rightarrow> js_error + summary_row list" where
  "generateSummary st =
     (case getLogs st of
        Inl e \<Rightarrow> Inl e
      | Inr ls \<Rightarrow> (case getAccounts st of
                    Inl e \<Rightarrow> Inl e
                  | Inr accs \<Rightarrow> Inr (summaryRows ls accs)))"

text \<open>The minutes the summary map holds for a period and a user, if it has that group.\<close>

definition group_minutes :: "summary_map \<Rightarrow> string \<Rightarrow> string \<Rightarrow> int option" where
  "group_minutes sm p u = (case obj_get sm p of None \<Rightarrow> None | Some e \<Rightarrow> obj_get e u)"

section \<open>Example data\<close>

definition example_now :: js_date where
  "example_now =
     \<lparr>getFullYear = 2024, getMonth = 0, getDate = 10, getHours = 17, getMinutes = 5\<rparr>"

definition example_user :: account where
  "example_user =
     \<lparr>a_username = ''bob'', a_password = ''secret'', a_role = Employee, hourlyRate = Some 20\<rparr>"

definition example_log :: work_log where
  "example_log =
     \<lparr>username = ''bob'', date = ''2024-01-09'', punchIn = ''09:00'', punchOut = ''17:00'',
      minutesWorked = 480, payPeriodStart = ''2024-01-01'', deduction = None\<rparr>"

definition example_storage :: storage where
  "example_storage =
     \<lparr>accounts = Stored [example_user],
      logs = Stored [example_log],
      paySettings = Stored \<lparr>startDays = [1, 15]\<rparr>,
      currentPunch = Stored [(''bob'', \<lparr>p_date = ''2024-01-10'', p_punchIn = ''09:00''\<rparr>)]\<rparr>"

definition example_fields :: log_fields where
  "example_fields =
     \<lparr>f_username = None, f_date = None, f_punchIn = None, f_punchOut = None,
      f_minutesWorked = Some 450, f_payPeriodStart = None, f_deduction = Some 30\<rparr>"

text \<open>
  The aggregation in the words of the specification. \<open>first_seen\<close> lists the distinct
  elements in the order of their first appearance; \<open>total_minutes\<close> sums the stored
  \<open>minutesWorked\<close> of the logs of a period and a user; \<open>spec_rate\<close> is the account's hourly
  rate, 0 if the account is missing or is not an employee.
\<close>

definition first_seen :: "'a list \<Rightarrow> 'a list" where
  "first_seen xs = rev (remdups (rev xs))"

definition total_minutes :: "work_log list \<Rightarrow> string \<Rightarrow> string \<Rightarrow> int" where
  "total_minutes ls p u =
     sum_list (map minutesWorked (filter (\<lambda>l. payPeriodStart l = p \<and> username l = u) ls))"

definition users_of :: "work_log list \<Rightarrow> string \<Rightarrow> string list" where
  "users_of ls p = first_seen (map username (filter (\<lambda>l. payPeriodStart l = p) ls))"

definition spec_rate :: "account list \<Rightarrow> string \<Rightarrow> rat" where
  "spec_rate accs u =
     (case find (\<lambda>a. a_username a = u) accs of
        None \<Rightarrow> 0
      | Some a \<Rightarrow> if a_role a = Employee
                  then (case hourlyRate a of None \<Rightarrow> 0 | Some r \<Rightarrow> r)
                  else 0)"

definition spec_row :: "work_log list \<Rightarrow> account list \<Rightarrow> string \<Rightarrow> string \<Rightarrow> summary_row" where
  "spec_row ls accs p u =
     \<lparr>period = p, user = u,
      totalHours = toFixed2 (js_div (total_minutes ls p u) 60),
      totalPay = toFixed2 (fl (js_div (total_minutes ls p u) 60 * spec_rate accs u))\<rparr>"

text \<open>Rows by ascending period, users within a period in order of first appearance.\<close>

definition aggregate_insertion_order :: "work_log list \<Rightarrow> account list \<Rightarrow> summary_row list" where
  "aggregate_insertion_order ls accs =
     concat (map (\<lambda>p. map (spec_row ls accs p) (users_of ls p))
               (sort (remdups (map payPeriodStart ls))))"

text \<open>
  Rows by ascending period, users within a period in the key order of an object: array
  indices first, ascending, then the other names in order of first appearance.
\<close>

definition aggregate_key_order :: "work_log list \<Rightarrow> account list \<Rightarrow> summary_row list" where
  "aggregate_key_order ls accs =
     concat (map (\<lambda>p. map (spec_row ls accs p) (key_order (users_of ls p)))
               (sort (remdups (map payPeriodStart ls))))"

text \<open>
  The data model of the accounts: an account that is not an employee has no hourly rate,
  and an hourly rate is not negative.
\<close>

definition accounts_wf :: "account list \<Rightarrow> bool" where
  "accounts_wf accs =
     list_all (\<lambda>a. (a_role a = Employee \<or> hourlyRate a = None)
                   \<and> (case hourlyRate a of None \<Rightarrow> True | Some r \<Rightarrow> 0 \<le> r)) accs"

text \<open>The keys of the logs are not names inherited from \<^verbatim>\<open>Object.prototype\<close>.\<close>

definition plain_keys :: "work_log list \<Rightarrow> bool" where
  "plain_keys ls = list_all (\<lambda>l. plain_key (payPeriodStart l) \<and> plain_key (username l)) ls"

text \<open>Merging two group totals by adding them; a group absent on one side counts nothing.\<close>

fun add_groups :: "int option \<Rightarrow> int option \<Rightarrow> int option" where
  "add_groups None None = None"
| "add_groups (Some a) None = Some a"
| "add_groups None (Some b) = Some b"
| "add_groups (Some a) (Some b) = Some (a + b)"

definition example_logs :: "work_log list" where
  "example_logs =
     [\<lparr>username = ''bob'', date = ''2024-01-16'', punchIn = ''09:00'', punchOut = ''17:00'',
       minutesWorked = 480, payPeriodStart = ''2024-01-15'', deduction = None\<rparr>,
      \<lparr>username = ''7'', date = ''2024-01-16'', punchIn = ''09:00'', punchOut = ''12:00'',
       minutesWorked = 180, payPeriodStart = ''2024-01-15'', deduction = None\<rparr>,
      \<lparr>username = ''bob'', date = ''2024-01-02'', punchIn = ''09:00'', punchOut = ''10:30'',
       minutesWorked = 90, payPeriodStart = ''2024-01-01'', deduction = None\<rparr>,
      \<lparr>username = ''bob'', date = ''2024-01-17'', punchIn = ''09:00'', punchOut = ''09:45'',
       minutesWorked = 15, payPeriodStart = ''2024-01-15'', deduction = Some 30\<rparr>]"

section \<open>Properties of the number model\<close>

lemma rne_one: "rne a 1 = a"
  by (simp add: rne_def)

lemma rne_ge_div: "0 < b \<Longrightarrow> a div b \<le> rne a b"
  by (simp add: rne_def Let_def)

lemma bitlen_one: "bitlen 1 = 1"
  by (subst compute_bitlen) simp

lemma bitlen_sixty: "bitlen 60 = 6"
  by code_simp

lemma binary_exponent_one:
  assumes "0 < a"
  shows "binary_exponent a 1 = bitlen a - 1"
proof -
  from assms have "1 \<le> bitlen a"
    using bitlen_eq_zero_iff [of a] bitlen_nonneg [of a] by linarith
  moreover from assms have "2 ^ nat (bitlen a - 1) \<le> a"
    using bitlen_bounds [of a] by simp
  ultimately show ?thesis
    by (simp add: binary_exponent_def bitlen_one)
qed

lemma binary_exponent_le: "binary_exponent a b \<le> bitlen a - bitlen b"
  by (simp add: binary_exponent_def Let_def)

lemma fl_quot_one_small:
  assumes "0 < a" "a < 2 ^ 53"
  shows "fl_quot a 1 = of_int a"
proof -
  from assms have "bitlen a \<le> 53"
    by (simp add: bitlen_le_iff_power)
  then have s: "binary_exponent a 1 - 52 \<le> 0"
    using assms by (simp add: binary_exponent_one)
  show ?thesis
  proof (cases "binary_exponent a 1 - 52 = 0")
    case True
    then show ?thesis by (simp add: fl_quot_def rne_one)
  next
    case False
    with s have "\<not> 0 \<le> binary_exponent a 1 - 52" by simp
    then show ?thesis by (simp add: fl_quot_def rne_one Let_def)
  qed
qed

lemma fl_quot_one_pos:
  assumes "0 < a"
  shows "0 < fl_quot a 1"
proof -
  let ?s = "binary_exponent a 1 - 52"
  show ?thesis
  proof (cases "0 \<le> ?s")
    case True
    have "(2::int) ^ nat ?s \<le> 2 ^ nat (bitlen a - 1)"
      using True assms by (intro power_increasing) (simp_all add: binary_exponent_one)
    also have "\<dots> \<le> a" using bitlen_bounds [of a] assms by simp
    finally have "0 < a div 2 ^ nat ?s"
      by (simp add: pos_imp_zdiv_pos_iff)
    also have "a div 2 ^ nat ?s \<le> rne a (2 ^ nat ?s)" by (rule rne_ge_div) simp
    finally have "0 < rne a (2 ^ nat ?s)" .
    with True show ?thesis by (simp add: fl_quot_def Let_def zero_less_mult_iff)
  next
    case False
    with assms show ?thesis by (simp add: fl_quot_def Let_def rne_one)
  qed
qed

lemma fl_int_small:
  assumes "\<bar>i\<bar> < 2 ^ 53"
  shows "fl_int i = i"
proof (cases "i = 0")
  case True
  then show ?thesis by (simp add: fl_int_def js_div_def)
next
  case False
  with assms have "fl_quot \<bar>i\<bar> 1 = of_int \<bar>i\<bar>" by (intro fl_quot_one_small) auto
  with False have "js_div i 1 = of_int i"
    by (cases "0 < i") (simp_all add: js_div_def)
  then show ?thesis by (simp add: fl_int_def)
qed

lemma fl_int_negative:
  assumes "i < 0"
  shows "fl_int i < 0"
proof -
  from assms have "0 < fl_quot \<bar>i\<bar> 1" by (intro fl_quot_one_pos) simp
  with assms have "js_div i 1 < 0" by (simp add: js_div_def)
  then show ?thesis by (simp add: fl_int_def floor_less_iff)
qed

lemma rne_div_bounds:
  fixes a q r P :: int
  assumes a: "a = 60 * q + r" "0 \<le> r" "r < 60" and P: "32 \<le> P"
  shows "rne (a * P) 60 div P = q"
proof -
  define Q where "Q = (a * P) div 60"
  define R where "R = (a * P) mod 60"
  define X where "X = q * P"
  define Y where "Y = r * P"
  have QR: "a * P = 60 * Q + R" "0 \<le> R" "R < 60" by (simp_all add: Q_def R_def)
  have XY: "a * P = 60 * X + Y" by (simp add: a X_def Y_def algebra_simps)
  have Y: "0 \<le> Y" "Y \<le> 59 * P"
    using a P by (simp_all add: Y_def mult_right_mono)
  define n where "n = rne (a * P) 60"
  have n: "n = (if 2 * R > 60 \<or> (2 * R = 60 \<and> odd Q) then Q + 1 else Q)"
    by (simp add: n_def rne_def Q_def R_def Let_def)
  have lo: "X \<le> n" using QR XY Y P n by (auto split: if_splits)
  have hi: "n < X + P" using QR XY Y P n by (auto split: if_splits)
  have "n div P = q"
  proof (rule int_div_pos_eq [where r = "n - X"])
    show "n = P * q + (n - X)" by (simp add: X_def)
    show "0 \<le> n - X" using lo by simp
    show "n - X < P" using hi by simp
  qed
  then show ?thesis by (simp add: n_def)
qed

lemma floor_js_div_60:
  assumes "0 \<le> a" "a < 2 ^ 53"
  shows "\<lfloor>js_div a 60\<rfloor> = a div 60"
proof (cases "a = 0")
  case True
  then show ?thesis by (simp add: js_div_def)
next
  case False
  with assms have pos: "0 < a" by simp
  from assms have "bitlen a \<le> 53" by (simp add: bitlen_le_iff_power)
  with binary_exponent_le [of a 60] have s: "binary_exponent a 60 - 52 \<le> - 5"
    by (simp add: bitlen_sixty)
  define k where "k = nat (- (binary_exponent a 60 - 52))"
  from s have k: "5 \<le> k" by (simp add: k_def)
  have "(2::int) ^ 5 \<le> 2 ^ k" using k by (intro power_increasing) simp_all
  then have P: "(32::int) \<le> 2 ^ k" by simp
  from s have "fl_quot a 60 = of_int (rne (a * 2 ^ k) 60) / of_int (2 ^ k)"
    by (simp add: fl_quot_def Let_def k_def)
  then have "\<lfloor>fl_quot a 60\<rfloor> = rne (a * 2 ^ k) 60 div 2 ^ k"
    by (simp only: floor_divide_of_int_eq)
  also have "\<dots> = a div 60"
  proof (rule rne_div_bounds)
    show "a = 60 * (a div 60) + a mod 60" by simp
    show "0 \<le> a mod 60" "a mod 60 < 60" by simp_all
    show "32 \<le> (2::int) ^ k" by (rule P)
  qed
  finally show ?thesis using pos by (simp add: js_div_def)
qed

lemma js_num_small:
  assumes "\<bar>i\<bar> < 2 ^ 53"
  shows "js_num i = Some i"
proof -
  have "\<bar>i\<bar> < 2 ^ nat 1024"
    using assms by (rule less_le_trans) simp
  then have "bitlen \<bar>i\<bar> \<le> 1024"
    by (simp add: bitlen_le_iff_power)
  then show ?thesis
    using assms by (simp add: js_num_def fl_int_small)
qed

section \<open>Properties of the time helpers\<close>

lemma digit_val_digit_char: "d < 10 \<Longrightarrow> digit_val (digit_char d) = d"
  by (simp add: digit_val_def digit_char_def)

lemma is_digit_digit_char: "d < 10 \<Longrightarrow> is_digit (digit_char d)"
  by (simp add: is_digit_def digit_char_def)

lemma digit_char_digit_val: "is_digit c \<Longrightarrow> digit_char (digit_val c) = c"
  by (simp add: is_digit_def digit_char_def digit_val_def)

lemma digit_val_less: "is_digit c \<Longrightarrow> digit_val c < 10"
  by (auto simp add: is_digit_def digit_val_def)

lemma colon_not_digit: "\<not> is_digit (CHR '':'')"
  by (simp add: is_digit_def)

lemma digit_char_0: "digit_char 0 = CHR ''0''"
  by code_simp

lemma is_digit_0: "is_digit (CHR ''0'')"
  by (simp add: is_digit_def)

lemma digit_val_0: "digit_val (CHR ''0'') = 0"
  by (simp add: digit_val_def)

lemma digits_two:
  assumes "n < 100"
  shows "padStart 2 (digits n) = [digit_char (n div 10), digit_char (n mod 10)]"
proof (cases "n < 10")
  case True
  then show ?thesis by (simp add: digits.simps padStart_def digit_char_0)
next
  case False
  with assms have "n div 10 < 10" by simp
  then have "digits (n div 10) = [digit_char (n div 10)]" by (simp add: digits.simps)
  with False have "digits n = [digit_char (n div 10), digit_char (n mod 10)]"
    by (subst digits.simps) simp
  then show ?thesis by (simp add: padStart_def)
qed

lemma digits_all_digit: "list_all is_digit (digits n)"
proof (induction n rule: digits.induct)
  case (1 n)
  show ?case
  proof (cases "n < 10")
    case True
    then show ?thesis by (simp add: digits.simps is_digit_digit_char)
  next
    case False
    with 1 have "list_all is_digit (digits (n div 10))" by simp
    moreover have "is_digit (digit_char (n mod 10))" by (simp add: is_digit_digit_char)
    ultimately show ?thesis using False by (subst digits.simps) simp
  qed
qed

lemma digits_nonempty: "digits n \<noteq> []"
  by (subst digits.simps) simp

lemma digits_value_snoc: "digits_value (s @ [c]) = 10 * digits_value s + digit_val c"
  by (simp add: digits_value_def)

lemma digits_value_digits: "digits_value (digits n) = n"
proof (induction n rule: digits.induct)
  case (1 n)
  show ?case
  proof (cases "n < 10")
    case True
    then show ?thesis by (simp add: digits.simps digits_value_def digit_val_digit_char)
  next
    case False
    with 1 have "digits_value (digits (n div 10)) = n div 10" by simp
    then have "digits_value (digits (n div 10) @ [digit_char (n mod 10)]) = n"
      by (simp add: digits_value_snoc digit_val_digit_char)
    with False show ?thesis by (subst digits.simps) simp
  qed
qed

lemma digits_value_zeros: "digits_value (replicate k (CHR ''0'') @ s) = digits_value s"
proof -
  have "foldl (\<lambda>acc c. 10 * acc + digit_val c) 0 (replicate k (CHR ''0'')) = 0"
    by (induction k) (simp_all add: digit_val_0)
  then show ?thesis by (simp add: digits_value_def)
qed

lemma padStart_all_digit: "list_all is_digit (padStart k (digits n))"
proof -
  have "\<forall>x\<in>set (digits n). is_digit x"
    using digits_all_digit [of n] by (simp add: list_all_iff)
  then show ?thesis
    by (auto simp: padStart_def list_all_iff is_digit_0)
qed

lemma js_Number_padStart_digits:
  assumes "int n < 2 ^ 53"
  shows "js_Number (padStart k (digits n)) = Some (int n)"
proof -
  have "digits_value (padStart k (digits n)) = n"
    by (simp add: padStart_def digits_value_zeros digits_value_digits)
  moreover have "padStart k (digits n) \<noteq> []"
    by (simp add: padStart_def digits_nonempty)
  ultimately show ?thesis
    using assms by (simp add: js_Number_def padStart_all_digit js_num_small)
qed

lemma split_on_absent: "c \<notin> set s \<Longrightarrow> split_on c s = [s]"
  by (induction s) auto

lemma split_on_first: "c \<notin> set a \<Longrightarrow> split_on c (a @ c # b) = a # split_on c b"
  by (induction a) auto

lemma colon_notin_digits: "list_all is_digit s \<Longrightarrow> CHR '':'' \<notin> set s"
  by (auto simp: list_all_iff colon_not_digit)

lemma split_on_time_fields:
  "split_on (CHR '':'') (padStart j (digits h) @ CHR '':'' # padStart k (digits m))
     = [padStart j (digits h), padStart k (digits m)]"
  by (simp add: split_on_first split_on_absent colon_notin_digits padStart_all_digit)

lemma timeToMinutes_fields:
  assumes "int h * 60 + int m < 2 ^ 53"
  shows "timeToMinutes (padStart j (digits h) @ CHR '':'' # padStart k (digits m))
     = Some (int h * 60 + int m)"
proof -
  from assms have h: "int h < 2 ^ 53" and m: "int m < 2 ^ 53" and h60: "int h * 60 < 2 ^ 53"
    by simp_all
  have "js_num (int h * 60) = Some (int h * 60)"
    using h60 by (intro js_num_small) simp
  moreover have "js_num (int h * 60 + int m) = Some (int h * 60 + int m)"
    using assms by (intro js_num_small) simp
  ultimately show ?thesis
    using h m by (simp add: timeToMinutes_def split_on_time_fields js_Number_padStart_digits)
qed

lemma minutesToTime_nonneg:
  assumes "0 \<le> m" "m < 2 ^ 53"
  shows "minutesToTime m =
    padStart 2 (digits (nat (m div 60))) @ CHR '':'' # padStart 2 (digits (nat (m mod 60)))"
proof -
  have "\<not> m div 60 < 0" "\<not> m mod 60 < 0" "\<not> m < 0"
    using assms by (simp_all add: pos_imp_zdiv_nonneg_iff)
  moreover have "\<lfloor>js_div m 60\<rfloor> = m div 60"
    using assms by (rule floor_js_div_60)
  ultimately show ?thesis
    by (simp add: minutesToTime_def js_rem_def js_String_def Let_def)
qed


lemma timeToMinutes_well_formed:
  assumes "well_formed_time s"
  obtains a b d e where "s = [a, b, CHR '':'', d, e]"
    "is_digit a" "is_digit b" "is_digit d" "is_digit e"
    "10 * digit_val a + digit_val b \<le> 23" "10 * digit_val d + digit_val e \<le> 59"
    "timeToMinutes s =
       Some (int (10 * digit_val a + digit_val b) * 60 + int (10 * digit_val d + digit_val e))"
proof -
  from assms obtain a b d e where s: "s = [a, b, CHR '':'', d, e]" and
    dig: "is_digit a" "is_digit b" "is_digit d" "is_digit e" and
    rng: "10 * digit_val a + digit_val b \<le> 23" "10 * digit_val d + digit_val e \<le> 59"
    by (auto simp: well_formed_time_def split: list.splits)
  from dig have ne: "a \<noteq> CHR '':''" "b \<noteq> CHR '':''" "d \<noteq> CHR '':''" "e \<noteq> CHR '':''"
    using colon_not_digit by auto
  have "split_on (CHR '':'') s = [[a, b], [d, e]]"
    using ne by (simp add: s)
  moreover have "js_num (int (10 * digit_val a + digit_val b)) =
      Some (int (10 * digit_val a + digit_val b))"
    using rng by (intro js_num_small) simp
  moreover have "js_num (int (10 * digit_val d + digit_val e)) =
      Some (int (10 * digit_val d + digit_val e))"
    using rng by (intro js_num_small) simp
  moreover have "js_num (int (10 * digit_val a + digit_val b) * 60) =
      Some (int (10 * digit_val a + digit_val b) * 60)"
    using rng by (intro js_num_small) simp
  moreover have "js_num (int (10 * digit_val a + digit_val b) * 60 +
        int (10 * digit_val d + digit_val e)) =
      Some (int (10 * digit_val a + digit_val b) * 60 + int (10 * digit_val d + digit_val e))"
    using rng by (intro js_num_small) simp
  moreover have "digits_value [a, b] = 10 * digit_val a + digit_val b"
    "digits_value [d, e] = 10 * digit_val d + digit_val e"
    by (simp_all add: digits_value_def)
  ultimately have "timeToMinutes s =
      Some (int (10 * digit_val a + digit_val b) * 60 + int (10 * digit_val d + digit_val e))"
    using dig by (simp add: timeToMinutes_def js_Number_def)
  with s dig rng show ?thesis using that by blast
qed

lemma minutesToTime_timeToMinutes:
  assumes "well_formed_time s"
  shows "\<exists>m. timeToMinutes s = Some m \<and> 0 \<le> m \<and> m < 1440 \<and> minutesToTime m = s"
proof -
  from assms obtain a b d e where s: "s = [a, b, CHR '':'', d, e]" and
    dig: "is_digit a" "is_digit b" "is_digit d" "is_digit e" and
    rng: "10 * digit_val a + digit_val b \<le> 23" "10 * digit_val d + digit_val e \<le> 59" and
    t: "timeToMinutes s =
      Some (int (10 * digit_val a + digit_val b) * 60 + int (10 * digit_val d + digit_val e))"
    by (rule timeToMinutes_well_formed)
  define h where "h = 10 * digit_val a + digit_val b"
  define m where "m = 10 * digit_val d + digit_val e"
  have lt: "digit_val a < 10" "digit_val b < 10" "digit_val d < 10" "digit_val e < 10"
    using dig by (simp_all add: digit_val_less)
  have hm: "h \<le> 23" "m \<le> 59" using rng by (simp_all add: h_def m_def)
  have dm: "(int h * 60 + int m) div 60 = int h" "(int h * 60 + int m) mod 60 = int m"
    using hm by simp_all
  have "minutesToTime (int h * 60 + int m) =
      padStart 2 (digits (nat ((int h * 60 + int m) div 60))) @
      CHR '':'' # padStart 2 (digits (nat ((int h * 60 + int m) mod 60)))"
    using hm by (intro minutesToTime_nonneg) simp_all
  then have "minutesToTime (int h * 60 + int m) =
      padStart 2 (digits h) @ CHR '':'' # padStart 2 (digits m)"
    by (simp only: dm nat_int)
  also have "padStart 2 (digits h) = [a, b]"
    using hm lt dig by (simp add: digits_two h_def digit_char_digit_val)
  also have "padStart 2 (digits m) = [d, e]"
    using hm lt dig by (simp add: digits_two m_def digit_char_digit_val)
  finally have "minutesToTime (int h * 60 + int m) = s" by (simp add: s)
  moreover have "int h * 60 + int m < 1440" using hm by simp
  ultimately show ?thesis using t by (simp add: h_def m_def)
qed

text \<open>
  C9. For every well-formed \<^verbatim>\<open>HH:MM\<close> string \<open>s\<close> (two digit pairs, hours at most 23,
  minutes at most 59), \<^verbatim>\<open>timeToMinutes\<close> has a value on \<open>s\<close> and \<^verbatim>\<open>minutesToTime\<close> maps that value
  back to \<open>s\<close>.
\<close>

theorem C9_roundtrip_string:
  assumes "well_formed_time s"
  shows "map_option minutesToTime (timeToMinutes s) = Some s"
  using minutesToTime_timeToMinutes [OF assms] by auto

theorem C9_roundtrip_string_witness:
  "well_formed_time ''09:05'' \<and> map_option minutesToTime (timeToMinutes ''09:05'') = Some ''09:05''"
proof -
  have wf: "well_formed_time ''09:05''" by code_simp
  from C9_roundtrip_string [OF wf] wf show ?thesis by simp
qed




text \<open>
  C4. For well-formed \<^verbatim>\<open>HH:MM\<close> strings and a deduction \<open>d \<ge> 0\<close>, \<^verbatim>\<open>computeWorkedMinutes\<close>
  returns the difference of the two times of day, taken as zero when negative, minus the
  deduction, floored at zero; the result is not negative. Without a deduction argument
  the deduction is 0. \<^verbatim>\<open>computeWorkedMinutes("09:00", "17:00", 0) = 480\<close> and
  \<^verbatim>\<open>computeWorkedMinutes("17:00", "09:00") = 0\<close>.
\<close>

theorem C4_computeWorkedMinutes:
  assumes "well_formed_time actualIn" and "well_formed_time actualOut" and "0 \<le> d"
  shows "\<exists>ai ao r. timeToMinutes actualIn = Some ai \<and> timeToMinutes actualOut = Some ao
      \<and> computeWorkedMinutes actualIn actualOut (Some d) = Some r
      \<and> r = max 0 (max 0 (ao - ai) - d) \<and> 0 \<le> r
      \<and> computeWorkedMinutes actualIn actualOut None = Some (max 0 (ao - ai))
      \<and> computeWorkedMinutes ''09:00'' ''17:00'' (Some 0) = Some 480
      \<and> computeWorkedMinutes ''17:00'' ''09:00'' None = Some 0"
proof -
  from minutesToTime_timeToMinutes [OF assms(1)]
  obtain ai where ai: "timeToMinutes actualIn = Some ai" "0 \<le> ai" "ai < 1440" by blast
  from minutesToTime_timeToMinutes [OF assms(2)]
  obtain ao where ao: "timeToMinutes actualOut = Some ao" "0 \<le> ao" "ao < 1440" by blast
  have ex1: "computeWorkedMinutes ''09:00'' ''17:00'' (Some 0) = Some 480" by code_simp
  have ex2: "computeWorkedMinutes ''17:00'' ''09:00'' None = Some 0" by code_simp
  define m1 where "m1 = max 0 (ao - ai)"
  have m1: "0 \<le> m1" "m1 < 1440" using ai ao by (simp_all add: m1_def)
  have diff: "fl_int (ao - ai) = ao - ai"
    using ai ao by (intro fl_int_small) simp
  have step1: "(if fl_int (ao - ai) < 0 then 0 else fl_int (ao - ai)) = m1"
    by (simp add: diff m1_def max_def)
  have step2: "(if fl_int (m1 - e) < 0 then 0 else fl_int (m1 - e)) = max 0 (m1 - e)"
    if "0 \<le> e" for e
  proof (cases "e \<le> m1")
    case True
    with m1 that have "fl_int (m1 - e) = m1 - e" by (intro fl_int_small) simp
    with True show ?thesis by (simp add: max_def)
  next
    case False
    then have "fl_int (m1 - e) < 0" by (intro fl_int_negative) simp
    with False show ?thesis by (simp add: max_def)
  qed
  have "computeWorkedMinutes actualIn actualOut (Some d) =
      Some (if fl_int (m1 - d) < 0 then 0 else fl_int (m1 - d))"
    by (simp add: computeWorkedMinutes_def ai ao Let_def step1)
  then have r1: "computeWorkedMinutes actualIn actualOut (Some d) = Some (max 0 (m1 - d))"
    by (simp only: step2 [OF assms(3)])
  have "computeWorkedMinutes actualIn actualOut None =
      Some (if fl_int (m1 - 0) < 0 then 0 else fl_int (m1 - 0))"
    by (simp add: computeWorkedMinutes_def ai ao Let_def step1)
  moreover have "(if fl_int (m1 - 0) < 0 then 0 else fl_int (m1 - 0)) = max 0 (m1 - 0)"
    by (rule step2) simp
  ultimately have "computeWorkedMinutes actualIn actualOut None = Some (max 0 (m1 - 0))"
    by (simp only:)
  then have r2: "computeWorkedMinutes actualIn actualOut None = Some m1"
    using m1 by simp
  from r1 r2 show ?thesis using ai ao ex1 ex2 by (simp add: m1_def)
qed

theorem C4_computeWorkedMinutes_witness:
  "well_formed_time ''09:15'' \<and> well_formed_time ''17:00'' \<and> (0::int) \<le> 30
    \<and> computeWorkedMinutes ''09:15'' ''17:00'' (Some 30) = Some 435"
proof -
  have a: "well_formed_time ''09:15''" by code_simp
  have b: "well_formed_time ''17:00''" by code_simp
  have c: "(0::int) \<le> 30" by simp
  have ti: "timeToMinutes ''09:15'' = Some 555" by code_simp
  have tout: "timeToMinutes ''17:00'' = Some 1020" by code_simp
  from C4_computeWorkedMinutes [OF a b c] ti tout
  have "computeWorkedMinutes ''09:15'' ''17:00'' (Some 30) = Some 435" by auto
  with a b c show ?thesis by simp
qed

section \<open>Properties of the pay period resolver\<close>

lemma chooseDay_filter:
  "chooseDay day xs acc =
     (if filter (\<lambda>s. s \<le> day) xs = [] then acc else Some (last (filter (\<lambda>s. s \<le> day) xs)))"
  by (induction xs arbitrary: acc) auto

lemma sorted_last_Max:
  fixes xs :: "int list"
  assumes "sorted xs" and "xs \<noteq> []"
  shows "last xs = Max (set xs)"
  using assms
proof (induction xs)
  case Nil
  then show ?case by simp
next
  case (Cons x xs)
  show ?case
  proof (cases "xs = []")
    case True
    then show ?thesis by simp
  next
    case False
    with Cons have "last xs = Max (set xs)" by simp
    moreover from False obtain y where y: "y \<in> set xs" by (cases xs) auto
    then have "x \<le> y" using Cons.prems by auto
    with y have "x \<le> Max (set xs)" by (meson List.finite_set Max_ge order_trans)
    ultimately show ?thesis using False by (simp add: max_def)
  qed
qed

lemma sort_Nil_iff: "sort ds = [] \<longleftrightarrow> ds = []"
  by (metis length_sort length_0_conv)

lemma chooseDay_sort:
  "chooseDay day (sort ds) None =
     (if \<exists>s\<in>set ds. s \<le> day then Some (Max {s \<in> set ds. s \<le> day}) else None)"
proof -
  let ?fs = "filter (\<lambda>s. s \<le> day) (sort ds)"
  have set_fs: "set ?fs = {s \<in> set ds. s \<le> day}" by auto
  have sorted_fs: "sorted ?fs" by (simp add: sorted_wrt_filter)
  show ?thesis
  proof (cases "?fs = []")
    case True
    then have "\<not> (\<exists>s\<in>set ds. s \<le> day)"
      using set_fs by (auto simp: filter_empty_conv)
    with True show ?thesis by (simp add: chooseDay_filter)
  next
    case False
    then have ex: "\<exists>s\<in>set ds. s \<le> day"
      by (auto simp: filter_empty_conv)
    from False sorted_fs have "last ?fs = Max (set ?fs)" by (simp add: sorted_last_Max)
    then have "last ?fs = Max {s \<in> set ds. s \<le> day}" by (simp only: set_fs)
    with False ex show ?thesis
      by (simp add: chooseDay_filter)
  qed
qed

lemma last_sort_Max:
  fixes ds :: "int list"
  shows "ds \<noteq> [] \<Longrightarrow> last (sort ds) = Max (set ds)"
  using sorted_last_Max [of "sort ds"] by (simp add: sort_Nil_iff)

text \<open>
  The result of \<^verbatim>\<open>getPayPeriodStart\<close> in terms of the set of start days: the sorted copy
  enters only through the largest start day not after the day, the largest start day, and
  whether the array is empty.
\<close>

lemma getPayPeriodStart_set:
  "getPayPeriodStart tzo dateObj (Some ds) =
     (if \<exists>s\<in>set ds. s \<le> getDate dateObj
      then Inr (toISOString_slice10 tzo
             (new_Date (getFullYear dateObj) (getMonth dateObj)
                (min (Max {s \<in> set ds. s \<le> getDate dateObj})
                     (getDate (new_Date (getFullYear dateObj) (getMonth dateObj + 1) 0)))))
      else if ds = [] then Inl RangeError
      else Inr (toISOString_slice10 tzo
             (new_Date (if getMonth dateObj = 0 then getFullYear dateObj - 1 else getFullYear dateObj)
                (js_rem (getMonth dateObj - 1 + 12) 12)
                (min (Max (set ds))
                     (getDate (new_Date
                        (if getMonth dateObj = 0 then getFullYear dateObj - 1 else getFullYear dateObj)
                        (js_rem (getMonth dateObj - 1 + 12) 12 + 1) 0))))))"
  by (simp add: getPayPeriodStart_def Let_def chooseDay_sort sort_Nil_iff last_sort_Max)

text \<open>
  C6. For every date, every time zone offset and every two lists of start days with the
  same set of values (so differing only in order and repetition), \<^verbatim>\<open>getPayPeriodStart\<close>
  returns the same result.
\<close>

theorem C6_startDays_order_and_duplicates:
  assumes "set xs = set ys"
  shows "getPayPeriodStart tzo dateObj (Some xs) = getPayPeriodStart tzo dateObj (Some ys)"
proof -
  from assms have "xs = [] \<longleftrightarrow> ys = []" by (metis set_empty)
  with assms show ?thesis by (simp only: getPayPeriodStart_set)
qed

theorem C6_startDays_order_and_duplicates_witness:
  "set [15, 1, 15 :: int] = set [1, 15]
   \<and> getPayPeriodStart 0
       \<lparr>getFullYear = 2024, getMonth = 0, getDate = 20, getHours = 9, getMinutes = 30\<rparr>
       (Some [15, 1, 15]) = Inr ''2024-01-15''"
proof -
  have s: "set [15, 1, 15 :: int] = set [1, 15]" by auto
  have e: "getPayPeriodStart 0
       \<lparr>getFullYear = 2024, getMonth = 0, getDate = 20, getHours = 9, getMinutes = 30\<rparr>
       (Some [1, 15]) = Inr ''2024-01-15''" by code_simp
  from C6_startDays_order_and_duplicates [OF s] e s show ?thesis by simp
qed

lemma nextDay_funpow:
  "1 + int n \<le> daysInMonth y m \<Longrightarrow> (nextDay ^^ n) (y, m, 1) = (y, m, 1 + int n)"
  by (induction n) auto

lemma daysInMonth_bounds: "28 \<le> daysInMonth y m \<and> daysInMonth y m \<le> 31"
  by (simp add: daysInMonth_def)

lemma new_Date_valid:
  assumes "100 \<le> y" "0 \<le> m" "m \<le> 11" "1 \<le> d" "d \<le> daysInMonth y m"
  shows "new_Date y m d = \<lparr>getFullYear = y, getMonth = m, getDate = d, getHours = 0, getMinutes = 0\<rparr>"
proof -
  have md: "m div 12 = 0" "m mod 12 = m" using assms by simp_all
  have "1 + int (nat (d - 1)) \<le> daysInMonth y m" using assms by simp
  then have "(nextDay ^^ nat (d - 1)) (y, m, 1) = (y, m, 1 + int (nat (d - 1)))"
    by (rule nextDay_funpow)
  then have "addDays (d - 1) (y, m, 1) = (y, m, d)"
    using assms by (simp add: addDays_def)
  then show ?thesis using assms md by (simp add: new_Date_def)
qed

lemma new_Date_day0:
  assumes "100 \<le> y" "0 \<le> m" "m \<le> 11"
  shows "getDate (new_Date y (m + 1) 0) = daysInMonth y m"
proof (cases "m = 11")
  case True
  then show ?thesis using assms by (simp add: new_Date_def addDays_def daysInMonth_def)
next
  case False
  then have "(m + 1) div 12 = 0" "(m + 1) mod 12 = m + 1" using assms by simp_all
  then show ?thesis using assms by (simp add: new_Date_def addDays_def)
qed

lemma length_digits: "0 < k \<Longrightarrow> n < 10 ^ k \<Longrightarrow> length (digits n) \<le> k"
proof (induction n arbitrary: k rule: digits.induct)
  case (1 n)
  show ?case
  proof (cases "n < 10")
    case True
    then show ?thesis using 1(2) by (simp add: digits.simps)
  next
    case False
    then obtain j where k: "k = Suc j" using 1(2) by (cases k) auto
    with False 1(3) have "0 < j" by (cases j) auto
    moreover have "n div 10 < 10 ^ j" using 1(3) k by (simp add: less_mult_imp_div_less mult.commute)
    ultimately have "length (digits (n div 10)) \<le> j" using 1(1) False by simp
    then show ?thesis using False k by (subst digits.simps) simp
  qed
qed

lemma length_padStart_digits: "0 < k \<Longrightarrow> n < 10 ^ k \<Longrightarrow> length (padStart k (digits n)) = k"
  using length_digits [of k n] by (simp add: padStart_def)

lemma length_iso_day:
  assumes "0 \<le> y" "y \<le> 9999" "0 \<le> m" "m \<le> 11" "0 \<le> d" "d \<le> 31"
  shows "length (iso_day (y, m, d)) = 10"
proof -
  have "nat y < 10 ^ 4" "nat (m + 1) < 10 ^ 2" "nat d < 10 ^ 2" using assms by simp_all
  then have "length (padStart 4 (digits (nat y))) = 4"
    "length (padStart 2 (digits (nat (m + 1)))) = 2"
    "length (padStart 2 (digits (nat d))) = 2"
    by (simp_all add: length_padStart_digits del: power_numeral)
  then show ?thesis using assms by (simp add: iso_year_def)
qed

lemma toISOString_midnight:
  assumes "- 1440 \<le> tzo" "tzo < 1440" "1 \<le> y" "y \<le> 9999" "0 \<le> m" "m \<le> 11" "1 \<le> d" "d \<le> 31"
  shows "toISOString_slice10 tzo \<lparr>getFullYear = y, getMonth = m, getDate = d, getHours = 0, getMinutes = 0\<rparr>
          = iso_day (if tzo < 0 then prevDay (y, m, d) else (y, m, d))"
proof (cases "tzo < 0")
  case True
  with assms(1) have "tzo div 1440 = - 1"
    by (intro int_div_pos_eq [where r = "tzo + 1440"]) simp_all
  then have u: "utc_day tzo \<lparr>getFullYear = y, getMonth = m, getDate = d, getHours = 0, getMinutes = 0\<rparr>
      = prevDay (y, m, d)"
    by (simp add: utc_day_def addDays_def)
  obtain y' m' d' where p: "prevDay (y, m, d) = (y', m', d')" by (cases "prevDay (y, m, d)") auto
  with assms(3-8) daysInMonth_bounds [of y "m - 1"]
  have "0 \<le> y'" "y' \<le> 9999" "0 \<le> m'" "m' \<le> 11" "0 \<le> d'" "d' \<le> 31"
    by (auto split: if_splits)
  then have "length (iso_day (y', m', d')) = 10" by (rule length_iso_day)
  with True u p show ?thesis by (simp add: toISOString_slice10_def)
next
  case False
  with assms(2) have "tzo div 1440 = 0" by simp
  then have u: "utc_day tzo \<lparr>getFullYear = y, getMonth = m, getDate = d, getHours = 0, getMinutes = 0\<rparr>
      = (y, m, d)"
    by (simp add: utc_day_def addDays_def)
  have "length (iso_day (y, m, d)) = 10" using assms by (intro length_iso_day) auto
  with False u show ?thesis by (simp add: toISOString_slice10_def)
qed

text \<open>
  What \<^verbatim>\<open>getPayPeriodStart\<close> returns for a calendar date and start days in 1..31, by the
  time zone offset \<open>tzo\<close> in force at local midnight of the start date: with \<open>tzo \<ge> 0\<close>
  (UTC and west of it) the period start the specification describes, with \<open>tzo < 0\<close>
  (east of UTC) the day before it, since \<^verbatim>\<open>toISOString\<close> prints the local midnight of the
  start date in UTC.
\<close>

lemma getPayPeriodStart_calendar:
  assumes tz: "- 1440 \<le> tzo" "tzo < 1440" and v: "valid_date dt" 
    and ne: "ds \<noteq> []" and rng: "\<forall>s\<in>set ds. 1 \<le> s \<and> s \<le> 31"
  shows "getPayPeriodStart tzo dt (Some ds) =
    Inr (iso_day (if tzo < 0 then prevDay (resolvePeriodStart_spec dt ds)
                  else resolvePeriodStart_spec dt ds))"
proof -
  define y where "y = getFullYear dt"
  define m where "m = getMonth dt"
  define day where "day = getDate dt"
  from v have yr: "101 \<le> y" "y \<le> 9999" and mr: "0 \<le> m" "m \<le> 11"
    and dr: "1 \<le> day" "day \<le> daysInMonth y m"
    by (simp_all add: valid_date_def y_def m_def day_def)
  show ?thesis
  proof (cases "\<exists>s\<in>set ds. s \<le> day")
    case True
    let ?c = "Max {s \<in> set ds. s \<le> day}"
    have fin: "finite {s \<in> set ds. s \<le> day}" by simp
    have nonempty: "{s \<in> set ds. s \<le> day} \<noteq> {}" using True by auto
    from Max_in [OF fin nonempty] have c: "?c \<in> set ds" "?c \<le> day" by auto
    with rng have c1: "1 \<le> ?c" by auto
    have dim: "getDate (new_Date y (m + 1) 0) = daysInMonth y m"
      using yr mr by (simp add: new_Date_day0)
    let ?d = "min ?c (daysInMonth y m)"
    have d: "1 \<le> ?d" "?d \<le> daysInMonth y m" "?d \<le> 31"
      using c1 daysInMonth_bounds [of y m] by auto
    have nd: "new_Date y m ?d = \<lparr>getFullYear = y, getMonth = m, getDate = ?d, getHours = 0, getMinutes = 0\<rparr>"
      using yr mr d by (intro new_Date_valid) auto
    have "toISOString_slice10 tzo (new_Date y m ?d) =
        iso_day (if tzo < 0 then prevDay (y, m, ?d) else (y, m, ?d))"
      unfolding nd using tz yr mr d by (intro toISOString_midnight) auto
    moreover have "getPayPeriodStart tzo dt (Some ds) =
        Inr (toISOString_slice10 tzo
          (new_Date y m (min ?c (getDate (new_Date y (m + 1) 0)))))"
      using True by (simp add: getPayPeriodStart_set y_def m_def day_def)
    moreover have "resolvePeriodStart_spec dt ds = (y, m, ?d)"
      using True by (simp add: resolvePeriodStart_spec_def Let_def y_def m_def day_def)
    ultimately show ?thesis by (simp only: dim)
  next
    case False
    define py where "py = (if m = 0 then y - 1 else y)"
    define pm where "pm = (if m = 0 then 11 else m - 1)"
    have pyr: "100 \<le> py" "py \<le> 9999" and pmr: "0 \<le> pm" "pm \<le> 11"
      using yr mr by (auto simp: py_def pm_def)
    have rem: "js_rem (m - 1 + 12) 12 = pm"
    proof (cases "m = 0")
      case True
      then show ?thesis by (simp add: js_rem_def pm_def)
    next
      case False
      with mr have "(m - 1 + 12) mod 12 = m - 1" by presburger
      with False mr show ?thesis by (simp add: js_rem_def pm_def)
    qed
    let ?c = "Max (set ds)"
    have "?c \<in> set ds" using ne by (intro Max_in) auto
    with rng have c1: "1 \<le> ?c" by auto
    have dim: "getDate (new_Date py (pm + 1) 0) = daysInMonth py pm"
      using pyr pmr by (simp add: new_Date_day0)
    let ?d = "min ?c (daysInMonth py pm)"
    have d: "1 \<le> ?d" "?d \<le> daysInMonth py pm" "?d \<le> 31"
      using c1 daysInMonth_bounds [of py pm] by auto
    have nd: "new_Date py pm ?d = \<lparr>getFullYear = py, getMonth = pm, getDate = ?d, getHours = 0, getMinutes = 0\<rparr>"
      using pyr pmr d by (intro new_Date_valid) auto
    have "toISOString_slice10 tzo (new_Date py pm ?d) =
        iso_day (if tzo < 0 then prevDay (py, pm, ?d) else (py, pm, ?d))"
      unfolding nd using tz pyr pmr d by (intro toISOString_midnight) auto
    moreover have "getPayPeriodStart tzo dt (Some ds) =
        Inr (toISOString_slice10 tzo
          (new_Date py (js_rem (m - 1 + 12) 12)
            (min ?c (getDate (new_Date py (js_rem (m - 1 + 12) 12 + 1) 0)))))"
      using False ne by (simp add: getPayPeriodStart_set py_def y_def m_def day_def)
    moreover have "resolvePeriodStart_spec dt ds = (py, pm, ?d)"
      using False by (simp add: resolvePeriodStart_spec_def Let_def py_def pm_def y_def m_def day_def)
    ultimately show ?thesis by (simp only: rem dim)
  qed
qed

text \<open>
  C1. The claim: for every calendar date and every non-empty list of start days in 1..31,
  \<^verbatim>\<open>getPayPeriodStart\<close> returns the date of the largest start day not after the day of
  the month (or of the largest start day of the previous month), clamped to the month's
  length; with start days 1 and 15, 2024-01-10 yields 2024-01-01.
  In a time zone one hour east of UTC the code returns 2023-12-31 for 2024-01-10, where
  the period start the claim describes is 2024-01-01.
\<close>

theorem C1_getPayPeriodStart_east_of_utc:
  "getPayPeriodStart (- 60)
     \<lparr>getFullYear = 2024, getMonth = 0, getDate = 10, getHours = 12, getMinutes = 0\<rparr>
     (Some [1, 15]) = Inr ''2023-12-31''
   \<and> iso_day (resolvePeriodStart_spec
       \<lparr>getFullYear = 2024, getMonth = 0, getDate = 10, getHours = 12, getMinutes = 0\<rparr>
       [1, 15]) = ''2024-01-01''"
  by code_simp

section \<open>Properties of the handlers and the storage layer\<close>

lemma toTimeString_minutes:
  assumes "0 \<le> getHours dt" "getHours dt \<le> 23" "0 \<le> getMinutes dt" "getMinutes dt \<le> 59"
  shows "timeToMinutes (toTimeString_slice5 dt) = Some (getHours dt * 60 + getMinutes dt)"
proof -
  have "timeToMinutes (padStart 2 (digits (nat (getHours dt))) @
        CHR '':'' # padStart 2 (digits (nat (getMinutes dt)))) =
      Some (int (nat (getHours dt)) * 60 + int (nat (getMinutes dt)))"
    using assms by (intro timeToMinutes_fields) simp
  then show ?thesis using assms by (simp add: toTimeString_slice5_def)
qed

lemma getPayPeriodStart_returns:
  "ds \<noteq> [] \<Longrightarrow> \<exists>p. getPayPeriodStart tzo dt (Some ds) = Inr p"
  by (simp add: getPayPeriodStart_set)

lemma obj_get_delete: "obj_get (AList.delete k m) k = None"
  by (simp add: obj_get_def delete_conv')

text \<open>
  What the punch-out handler does, with the punch map readable. If the map has no session
  for the user dated today, it alerts "No punch in record found for today." and returns the
  storage unchanged. Otherwise, with a well-formed punch-in time, readable settings with at
  least one start day and readable logs, it appends exactly one log with that username,
  \<open>date\<close> = today, the session's punch-in time, the current time as punch-out,
  \<open>minutesWorked\<close> = \<^verbatim>\<open>computeWorkedMinutes(punchIn, punchOut)\<close>, \<open>payPeriodStart\<close> =
  \<^verbatim>\<open>getPayPeriodStart(now, settings.startDays)\<close>, no deduction (read as 0), and removes the
  user's session from the punch map.
\<close>

lemma punchOut_effect:
  assumes cp: "getCurrentPunch st = Inr m"
  shows "((\<forall>r. obj_get m (a_username u) = Some r \<longrightarrow> p_date r \<noteq> toISOString_slice10 tzoNow now)
          \<longrightarrow> punchOutBtn_click tzoNow tzoStart u now st =
                (Alerted ''No punch in record found for today.'', st))
    \<and> (\<forall>r settings ls.
          obj_get m (a_username u) = Some r \<and> p_date r = toISOString_slice10 tzoNow now
          \<and> well_formed_time (p_punchIn r) \<and> valid_date now
          \<and> getPaySettings st = Inr settings \<and> startDays settings \<noteq> [] \<and> getLogs st = Inr ls
          \<longrightarrow> (\<exists>mw pps entry.
                computeWorkedMinutes (p_punchIn r) (toTimeString_slice5 now) None = Some mw
              \<and> getPayPeriodStart tzoStart now (Some (startDays settings)) = Inr pps
              \<and> entry = \<lparr>username = a_username u, date = toISOString_slice10 tzoNow now,
                          punchIn = p_punchIn r, punchOut = toTimeString_slice5 now,
                          minutesWorked = mw, payPeriodStart = pps, deduction = None\<rparr>
              \<and> deduction_of entry = 0
              \<and> snd (punchOutBtn_click tzoNow tzoStart u now st) =
                    st\<lparr>logs := Stored (ls @ [entry]),
                       currentPunch := Stored (AList.delete (a_username u) m)\<rparr>
              \<and> (\<exists>msg. fst (punchOutBtn_click tzoNow tzoStart u now st) = Message msg)
              \<and> obj_get (AList.delete (a_username u) m) (a_username u) = None))"
proof (intro conjI allI impI)
  assume "\<forall>r. obj_get m (a_username u) = Some r \<longrightarrow> p_date r \<noteq> toISOString_slice10 tzoNow now"
  then show "punchOutBtn_click tzoNow tzoStart u now st =
      (Alerted ''No punch in record found for today.'', st)"
    using cp by (auto simp: punchOutBtn_click_def Let_def split: option.splits)
next
  fix r settings ls
  assume h: "obj_get m (a_username u) = Some r \<and> p_date r = toISOString_slice10 tzoNow now
          \<and> well_formed_time (p_punchIn r) \<and> valid_date now
          \<and> getPaySettings st = Inr settings \<and> startDays settings \<noteq> [] \<and> getLogs st = Inr ls"
  from h obtain ai where ai: "timeToMinutes (p_punchIn r) = Some ai" "0 \<le> ai" "ai < 1440"
    using minutesToTime_timeToMinutes by blast
  from h have hm: "0 \<le> getHours now" "getHours now \<le> 23" "0 \<le> getMinutes now" "getMinutes now \<le> 59"
    by (simp_all add: valid_date_def)
  define ao where "ao = getHours now * 60 + getMinutes now"
  from hm have ao: "timeToMinutes (toTimeString_slice5 now) = Some ao" "0 \<le> ao" "ao < 1440"
    by (simp_all add: toTimeString_minutes ao_def)
  define mw where "mw = max 0 (ao - ai)"
  have "fl_int (ao - ai) = ao - ai" using ai ao by (intro fl_int_small) simp
  moreover have "fl_int (max 0 (ao - ai)) = max 0 (ao - ai)"
    using ai ao by (intro fl_int_small) simp
  moreover have "fl_int 0 = 0" by (intro fl_int_small) simp
  ultimately have cw: "computeWorkedMinutes (p_punchIn r) (toTimeString_slice5 now) None = Some mw"
    using ai ao by (simp add: computeWorkedMinutes_def mw_def max_def)
  from h obtain pps where pps: "getPayPeriodStart tzoStart now (Some (startDays settings)) = Inr pps"
    using getPayPeriodStart_returns by blast
  define entry where "entry = \<lparr>username = a_username u, date = toISOString_slice10 tzoNow now,
                          punchIn = p_punchIn r, punchOut = toTimeString_slice5 now,
                          minutesWorked = mw, payPeriodStart = pps, deduction = None\<rparr>"
  from h have al: "addLog st entry = Inr (entry, st\<lparr>logs := Stored (ls @ [entry])\<rparr>)"
    by (simp add: addLog_def getLogs_def)
  have res: "punchOutBtn_click tzoNow tzoStart u now st =
      (Message (''You punched out at '' @ toTimeString_slice5 now @ ''. Total worked: '' @
                formatHours mw @ '' hours.''),
       st\<lparr>logs := Stored (ls @ [entry]), currentPunch := Stored (AList.delete (a_username u) m)\<rparr>)"
    using h cp cw pps al
    by (simp add: punchOutBtn_click_def Let_def setCurrentPunch_def flip: entry_def)
  have "deduction_of entry = 0" by (simp add: deduction_of_def entry_def)
  with cw pps res
  show "\<exists>mw pps entry.
                computeWorkedMinutes (p_punchIn r) (toTimeString_slice5 now) None = Some mw
              \<and> getPayPeriodStart tzoStart now (Some (startDays settings)) = Inr pps
              \<and> entry = \<lparr>username = a_username u, date = toISOString_slice10 tzoNow now,
                          punchIn = p_punchIn r, punchOut = toTimeString_slice5 now,
                          minutesWorked = mw, payPeriodStart = pps, deduction = None\<rparr>
              \<and> deduction_of entry = 0
              \<and> snd (punchOutBtn_click tzoNow tzoStart u now st) =
                    st\<lparr>logs := Stored (ls @ [entry]),
                       currentPunch := Stored (AList.delete (a_username u) m)\<rparr>
              \<and> (\<exists>msg. fst (punchOutBtn_click tzoNow tzoStart u now st) = Message msg)
              \<and> obj_get (AList.delete (a_username u) m) (a_username u) = None"
    by (auto simp: entry_def obj_get_delete)
qed

text \<open>
  C3. The claim: a punch-out with a session dated today creates exactly one log whose
  \<open>payPeriodStart\<close> is the period start of today for the current start days.
  In a time zone one hour east of UTC, with start days 1 and 15, a punch-out at 17:05 on
  2024-01-10 stores a log dated 2024-01-10 whose \<open>payPeriodStart\<close> is 2023-12-31, where the
  period start of that day is 2024-01-01. The log has no \<open>deduction\<close> field, which readers
  take as 0; its other fields and the cleared session are as the claim says.
\<close>

theorem C3_punchOut_east_of_utc:
  "punchOutBtn_click (- 60) (- 60) example_user example_now example_storage =
     (Message ''You punched out at 17:05. Total worked: 8.08 hours.'',
      example_storage
        \<lparr>logs := Stored [example_log,
           \<lparr>username = ''bob'', date = ''2024-01-10'', punchIn = ''09:00'', punchOut = ''17:05'',
            minutesWorked = 485, payPeriodStart = ''2023-12-31'', deduction = None\<rparr>],
         currentPunch := Stored []\<rparr>)
   \<and> iso_day (resolvePeriodStart_spec example_now [1, 15]) = ''2024-01-01''"
  by code_simp

lemma map_filter_valid:
  "map Some (List.map_filter (\<lambda>n. if valid_day n then n else None) xs) = filter valid_day xs"
  by (induction xs) (auto simp: List.map_filter_simps valid_day_def split: option.splits)

text \<open>
  C7, as the code has it. The entries of the input (split at commas, trimmed, read by
  \<^verbatim>\<open>parseInt\<close>) that are integers in 1..31 are kept and the others dropped. The save is
  rejected with the message "Please enter valid day numbers separated by commas." and
  the storage unchanged exactly when no entry is kept; otherwise the kept entries, sorted
  ascending, replace the stored start days, every one of them in 1..31.
\<close>

theorem C7_savePayPeriod:
  "\<exists>parts. map Some parts = filter valid_day (entered_days v)
     \<and> (\<forall>d\<in>set parts. 1 \<le> d \<and> d \<le> 31)
     \<and> savePayPeriodBtn_click v st =
         (if parts = [] then (''Please enter valid day numbers separated by commas.'', st)
          else (''Pay period settings saved.'', st\<lparr>paySettings := Stored \<lparr>startDays = sort parts\<rparr>\<rparr>))"
proof -
  define parts where "parts = List.map_filter (\<lambda>n. if valid_day n then n else None) (entered_days v)"
  have m: "map Some parts = filter valid_day (entered_days v)"
    by (simp add: parts_def map_filter_valid)
  have "\<forall>d\<in>set parts. 1 \<le> d \<and> d \<le> 31"
  proof
    fix d assume "d \<in> set parts"
    then have "Some d \<in> set (map Some parts)" by simp
    then have "valid_day (Some d)" by (simp only: m) simp
    then show "1 \<le> d \<and> d \<le> 31" by (simp add: valid_day_def)
  qed
  moreover have "savePayPeriodBtn_click v st =
         (if parts = [] then (''Please enter valid day numbers separated by commas.'', st)
          else (''Pay period settings saved.'', st\<lparr>paySettings := Stored \<lparr>startDays = sort parts\<rparr>\<rparr>))"
    by (simp add: savePayPeriodBtn_click_def setPaySettings_def Let_def flip: parts_def)
  ultimately show ?thesis using m by blast
qed

theorem C7_savePayPeriod_witness:
  "filter valid_day (entered_days ''15, x, 1'') = [Some 15, Some 1]
   \<and> savePayPeriodBtn_click ''15, x, 1'' example_storage =
       (''Pay period settings saved.'',
        example_storage\<lparr>paySettings := Stored \<lparr>startDays = [1, 15]\<rparr>\<rparr>)"
proof -
  have f: "filter valid_day (entered_days ''15, x, 1'') = [Some 15, Some 1]" by code_simp
  from C7_savePayPeriod [of "''15, x, 1''" example_storage]
  obtain parts where p0: "map Some parts = filter valid_day (entered_days ''15, x, 1'')"
    and r: "savePayPeriodBtn_click ''15, x, 1'' example_storage =
         (if parts = [] then (''Please enter valid day numbers separated by commas.'', example_storage)
          else (''Pay period settings saved.'',
                example_storage\<lparr>paySettings := Stored \<lparr>startDays = sort parts\<rparr>\<rparr>))"
    by blast
  from p0 f have p: "map Some parts = [Some 15, Some 1]" by simp
  from p have "parts = [15, 1]" by (auto simp: map_eq_Cons_conv)
  with r f show ?thesis by simp
qed

text \<open>
  C7 as claimed fails: the input \<^verbatim>\<open>1,abc,40\<close> has a non-numeric entry and an entry outside
  1..31, yet the handler saves the valid subset \<open>[1]\<close> over the stored \<open>[1, 15]\<close>.
\<close>

theorem C7_partial_settings_saved:
  "has_invalid_entry ''1,abc,40''
   \<and> savePayPeriodBtn_click ''1,abc,40'' example_storage =
       (''Pay period settings saved.'', example_storage\<lparr>paySettings := Stored \<lparr>startDays = [1]\<rparr>\<rparr>)
   \<and> paySettings example_storage = Stored \<lparr>startDays = [1, 15]\<rparr>"
  by code_simp

lemma getters_without_settings:
  "getCurrentPunch (st\<lparr>paySettings := x\<rparr>) = getCurrentPunch st"
  "getLogs (st\<lparr>paySettings := x\<rparr>) = getLogs st"
  "getAccounts (st\<lparr>paySettings := x\<rparr>) = getAccounts st"
  by (simp_all add: getCurrentPunch_def getLogs_def getAccounts_def)

lemma punchOut_settings_failure:
  assumes "getPaySettings st = Inl e"
  shows "punchOutBtn_click tzoNow tzoStart u now st =
     (case punchOutBtn_click tzoNow tzoStart u now (st\<lparr>paySettings := Absent\<rparr>) of
        (out, st') \<Rightarrow> (out, st'\<lparr>paySettings := paySettings st\<rparr>))"
proof -
  have d: "getPaySettings (st\<lparr>paySettings := Absent\<rparr>) = Inr \<lparr>startDays = [1, 15]\<rparr>"
    by (simp add: getPaySettings_def parse_item_def)
  have a: "addLog (st\<lparr>paySettings := Absent\<rparr>) entry =
      (case addLog st entry of Inl e \<Rightarrow> Inl e | Inr (l, s) \<Rightarrow> Inr (l, s\<lparr>paySettings := Absent\<rparr>))" for entry
    by (simp add: addLog_def split: sum.splits)
  show ?thesis
    using assms
    by (simp add: punchOutBtn_click_def Let_def d a getters_without_settings setCurrentPunch_def addLog_def
        split: sum.splits option.splits prod.splits)
qed

text \<open>
  C8, as the code has it. \<^verbatim>\<open>updateLog\<close> passes on the failure to parse the stored logs; with
  an index inside the array it stores the log with the given fields overwritten; with an
  index outside the array it completes without an error and leaves the storage as it was.
  When \<^verbatim>\<open>getPaySettings\<close> fails, the punch-out handler catches the failure and runs as it
  does when no settings are stored, that is with start days 1 and 15; the stored settings
  are not touched.
\<close>

theorem C8_storage_failures:
  "(getLogs st = Inl e \<longrightarrow> updateLog st logId f = Inl e)
   \<and> (getLogs st = Inr ls \<and> 0 \<le> logId \<and> logId < int (length ls) \<longrightarrow>
        updateLog st logId f =
          Inr (st\<lparr>logs := Stored (ls[nat logId := assign_fields (ls ! nat logId) f])\<rparr>))
   \<and> (getLogs st = Inr ls \<and> \<not> (0 \<le> logId \<and> logId < int (length ls)) \<longrightarrow>
        updateLog st logId f = Inr st)
   \<and> (getPaySettings st = Inl e \<longrightarrow>
        punchOutBtn_click tzoNow tzoStart u now st =
          (case punchOutBtn_click tzoNow tzoStart u now (st\<lparr>paySettings := Absent\<rparr>) of
             (out, st') \<Rightarrow> (out, st'\<lparr>paySettings := paySettings st\<rparr>)))"
proof (intro conjI impI)
  assume "getLogs st = Inl e"
  then show "updateLog st logId f = Inl e" by (simp add: updateLog_def getLogs_def)
next
  assume "getLogs st = Inr ls \<and> 0 \<le> logId \<and> logId < int (length ls)"
  then show "updateLog st logId f =
          Inr (st\<lparr>logs := Stored (ls[nat logId := assign_fields (ls ! nat logId) f])\<rparr>)"
    by (simp add: updateLog_def getLogs_def)
next
  assume "getLogs st = Inr ls \<and> \<not> (0 \<le> logId \<and> logId < int (length ls))"
  then show "updateLog st logId f = Inr st"
    by (auto simp add: updateLog_def getLogs_def)
next
  assume "getPaySettings st = Inl e"
  then show "punchOutBtn_click tzoNow tzoStart u now st =
          (case punchOutBtn_click tzoNow tzoStart u now (st\<lparr>paySettings := Absent\<rparr>) of
             (out, st') \<Rightarrow> (out, st'\<lparr>paySettings := paySettings st\<rparr>))"
    by (rule punchOut_settings_failure)
qed

theorem C8_storage_failures_witness:
  "getLogs example_storage = Inr [example_log]
   \<and> \<not> (0 \<le> (5::int) \<and> (5::int) < int (length [example_log]))
   \<and> updateLog example_storage 5 example_fields = Inr example_storage
   \<and> updateLog example_storage 0 example_fields =
       Inr (example_storage\<lparr>logs := Stored [assign_fields example_log example_fields]\<rparr>)
   \<and> getPaySettings (example_storage\<lparr>paySettings := Malformed\<rparr>) = Inl SyntaxError
   \<and> punchOutBtn_click 0 0 example_user example_now (example_storage\<lparr>paySettings := Malformed\<rparr>) =
       (case punchOutBtn_click 0 0 example_user example_now
               (example_storage\<lparr>paySettings := Malformed, paySettings := Absent\<rparr>) of
          (out, st') \<Rightarrow> (out, st'\<lparr>paySettings := Malformed\<rparr>))"
proof -
  have g: "getLogs example_storage = Inr [example_log]" by code_simp
  have n: "\<not> (0 \<le> (5::int) \<and> (5::int) < int (length [example_log]))" by simp
  have i: "0 \<le> (0::int) \<and> (0::int) < int (length [example_log])" by simp
  have s: "getPaySettings (example_storage\<lparr>paySettings := Malformed\<rparr>) = Inl SyntaxError"
    by code_simp
  have ps: "paySettings (example_storage\<lparr>paySettings := Malformed\<rparr>) = Malformed" by simp
  note t1 = C8_storage_failures [of example_storage SyntaxError 5 example_fields "[example_log]" 0 0 example_user example_now]
  note t2 = C8_storage_failures [of example_storage SyntaxError 0 example_fields "[example_log]" 0 0 example_user example_now]
  note t3 = C8_storage_failures [of "example_storage\<lparr>paySettings := Malformed\<rparr>" SyntaxError 0 example_fields "[]" 0 0 example_user example_now]
  from t1 g n have a: "updateLog example_storage 5 example_fields = Inr example_storage" by blast
  from t2 g i have b: "updateLog example_storage 0 example_fields =
       Inr (example_storage\<lparr>logs := Stored ([example_log][nat 0 := assign_fields ([example_log] ! nat 0) example_fields])\<rparr>)"
    by blast
  from t3 s have c: "punchOutBtn_click 0 0 example_user example_now (example_storage\<lparr>paySettings := Malformed\<rparr>) =
       (case punchOutBtn_click 0 0 example_user example_now
               (example_storage\<lparr>paySettings := Malformed, paySettings := Absent\<rparr>) of
          (out, st') \<Rightarrow> (out, st'\<lparr>paySettings := paySettings (example_storage\<lparr>paySettings := Malformed\<rparr>)\<rparr>))"
    by blast
  from g n a b c s show ?thesis by (simp only: ps) simp
qed

text \<open>
  C8 as claimed fails: \<^verbatim>\<open>updateLog\<close> with index 5 on a one-element array returns normally
  and changes nothing, and a punch-out whose \<^verbatim>\<open>getPaySettings\<close> fails still completes and
  stores a log whose period start comes from the start days 1 and 15.
\<close>

theorem C8_silent_no_op_and_masked_failure:
  "updateLog example_storage 5 example_fields = Inr example_storage
   \<and> getPaySettings (example_storage\<lparr>paySettings := Malformed\<rparr>) = Inl SyntaxError
   \<and> punchOutBtn_click 0 0 example_user example_now (example_storage\<lparr>paySettings := Malformed\<rparr>) =
       (Message ''You punched out at 17:05. Total worked: 8.08 hours.'',
        example_storage\<lparr>paySettings := Malformed,
          logs := Stored [example_log,
            \<lparr>username = ''bob'', date = ''2024-01-10'', punchIn = ''09:00'', punchOut = ''17:05'',
             minutesWorked = 485, payPeriodStart = ''2024-01-01'', deduction = None\<rparr>],
          currentPunch := Stored []\<rparr>)"
  by code_simp

end
